theory Spec2Isabelle
  imports Complex_Main "HOL-Library.AList"
begin

section \<open>JavaScript values\<close>

text \<open>
  The MoltAgent extension is TypeScript. Values that the code types as \<open>unknown\<close>
  (the \<open>details\<close> bag of an action, message payloads the code never inspects) are JSON
  values. A JavaScript number is modelled as an exact real or \<open>NaN\<close>; the rounding and the
  infinities of IEEE doubles are outside the model. Wall-clock readings (\<open>Date.now()\<close>,
  \<open>new Date().toISOString()\<close>) are parameters of the functions that take them.
\<close>

datatype js_number = Fin real | NaN

datatype js_value =
    JUndefined
  | JNull
  | JBool bool
  | JNum js_number
  | JStr string
  | JArr "js_value list"
  | JObj "(string \<times> js_value) list"

text \<open>ToBoolean: what \<open>if (v)\<close> and \<open>a && v\<close> test.\<close>

fun truthy :: "js_value \<Rightarrow> bool" where
  "truthy JUndefined = False"
| "truthy JNull = False"
| "truthy (JBool b) = b"
| "truthy (JNum (Fin x)) = (x \<noteq> 0)"
| "truthy (JNum NaN) = False"
| "truthy (JStr s) = (s \<noteq> [])"
| "truthy (JArr xs) = True"
| "truthy (JObj kvs) = True"

text \<open>
  \<open>Number(v)\<close>. On the primitives other than strings the result is fixed by the language;
  on strings, arrays and objects it goes through StringToNumber and ToPrimitive, which are
  taken as the parameter \<open>coerce\<close>.
\<close>

fun Number_js :: "(js_value \<Rightarrow> js_number) \<Rightarrow> js_value \<Rightarrow> js_number" where
  "Number_js coerce JUndefined = NaN"
| "Number_js coerce JNull = Fin 0"
| "Number_js coerce (JBool b) = Fin (if b then 1 else 0)"
| "Number_js coerce (JNum n) = n"
| "Number_js coerce (JStr s) = coerce (JStr s)"
| "Number_js coerce (JArr xs) = coerce (JArr xs)"
| "Number_js coerce (JObj kvs) = coerce (JObj kvs)"

text \<open>\<open>n || 0\<close> on a number: \<open>NaN\<close> and zero are falsy.\<close>

fun or_zero :: "js_number \<Rightarrow> real" where
  "or_zero NaN = 0"
| "or_zero (Fin x) = x"

text \<open>\<open>s.replace(pat, rep)\<close> with a string pattern: the first occurrence only.\<close>

fun replace_first :: "string \<Rightarrow> string \<Rightarrow> string \<Rightarrow> string" where
  "replace_first pat rep [] = (if pat = [] then rep else [])"
| "replace_first pat rep (c # cs) =
     (if take (length pat) (c # cs) = pat then rep @ drop (length pat) (c # cs)
      else c # replace_first pat rep cs)"

definition startsWith :: "string \<Rightarrow> string \<Rightarrow> bool" where
  "startsWith s p = (take (length p) s = p)"

text \<open>A JavaScript \<open>Map\<close> keeps insertion order: \<open>set\<close> on a present key updates in place,
  on a new key appends; this is \<open>AList.update\<close>. \<open>delete\<close> is \<open>AList.delete\<close>, \<open>get\<close> is
  \<open>map_of\<close>.\<close>

section \<open>Bridge (bridge.ts)\<close>

subsection \<open>Message types\<close>

datatype agent_run_state = Starting | Running | Busy | Idle | ErrorState | ShuttingDown

record agent_status_report =
  sr_state :: agent_run_state
  activeTask :: "string option"
  channelsConnected :: "string list"
  sr_uptimeSec :: real
  memoryUsageMb :: real
  cpuPercent :: real
  actionsToday :: real
  spendToday :: real
  goalProgress :: "(string \<times> real) list"

datatype action_category = Browse | Execute | Message | ApiCall | Spend | File | Other

record action_log_entry =
  al_id :: string
  al_timestamp :: string
  al_category :: action_category
  summary :: string
  details :: "(string \<times> js_value) list option"
  durationMs :: "real option"

datatype approval_category = SpendApproval | ActionApproval | AccessApproval

record approval_request =
  ar_id :: string
  ar_category :: approval_category
  ar_description :: string
  ar_amount :: "real option"
  ar_currency :: "string option"
  ar_expiresAt :: string

text \<open>Messages the agent sends to the control plane.\<close>

datatype agent_message =
    Heartbeat string string real
  | Status string agent_status_report
  | Action string action_log_entry
  | ApprovalRequestMsg string approval_request
  | ErrorMsg string string

text \<open>Messages the control plane sends to the agent. The bridge never looks inside the
  payloads of \<open>update_config\<close> and \<open>update_goals\<close>: they are JSON values here.\<close>

datatype control_message =
    UpdateConfig js_value
  | UpdateGoals js_value
  | InjectKnowledge "(string \<times> string) list"
  | SendMessage string "string option"
  | ApprovalResponse string bool "string option"
  | Restart
  | Shutdown
  | Ping

subsection \<open>Bridge state\<close>

datatype ready_state = CONNECTING | OPEN | CLOSING | CLOSED

datatype bridge_callback =
    OnCommand control_message
  | OnConnected
  | OnDisconnectedClose nat string
  | OnDisconnectedError string

text \<open>
  The fields of \<open>MoltAgentBridge\<close>, and what its effects reach: the WebSocket objects it
  has created (\<open>sockets\<close>, a socket is its index, \<open>ws\<close> is the current one), the frames
  handed to \<open>ws.send\<close> (\<open>wire\<close>), the delays passed to \<open>setTimeout(() => this.connect(), delay)\<close>
  (\<open>reconnectTimers\<close>), the callbacks invoked (\<open>callbackLog\<close>), and the promises of
  \<open>requestApproval\<close> with their armed timeouts. \<open>heartbeatTimer\<close> tells whether the interval
  is set.
\<close>

record bridge =
  agentId :: string
  ws :: "nat option"
  reconnectAttempt :: nat
  heartbeatTimer :: bool
  startTime :: int
  closed :: bool
  pendingApprovals :: "(string \<times> nat) list"
  sockets :: "ready_state list"
  wire :: "(nat \<times> agent_message) list"
  reconnectTimers :: "nat list"
  callbackLog :: "bridge_callback list"
  promises :: "bool option list"
  approvalTimers :: "(nat \<times> string) list"

definition maxReconnectDelay :: nat where
  "maxReconnectDelay = 60000"

definition new_bridge :: "string \<Rightarrow> int \<Rightarrow> bridge" where
  "new_bridge aid now =
     \<lparr>agentId = aid, ws = None, reconnectAttempt = 0, heartbeatTimer = False,
      startTime = now, closed = False, pendingApprovals = [], sockets = [], wire = [],
      reconnectTimers = [], callbackLog = [], promises = [], approvalTimers = []\<rparr>"

text \<open>\<open>this.ws?.readyState === WebSocket.OPEN\<close>\<close>

definition ws_open :: "bridge \<Rightarrow> bool" where
  "ws_open b =
     (case ws b of None \<Rightarrow> False
      | Some s \<Rightarrow> s < length (sockets b) \<and> sockets b ! s = OPEN)"

definition connect :: "bridge \<Rightarrow> bridge" where
  "connect b =
     (if closed b then b
      else b\<lparr>sockets := sockets b @ [CONNECTING], ws := Some (length (sockets b))\<rparr>)"

definition send :: "bridge \<Rightarrow> agent_message \<Rightarrow> bridge" where
  "send b msg =
     (case ws b of
        None \<Rightarrow> b
      | Some s \<Rightarrow>
          if s < length (sockets b) \<and> sockets b ! s = OPEN
          then b\<lparr>wire := wire b @ [(s, msg)]\<rparr> else b)"

definition sendHeartbeat :: "bridge \<Rightarrow> string \<Rightarrow> int \<Rightarrow> bridge" where
  "sendHeartbeat b nowIso nowMs =
     send b (Heartbeat (agentId b) nowIso (of_int ((nowMs - startTime b) div 1000)))"

definition sendStatus :: "bridge \<Rightarrow> agent_status_report \<Rightarrow> bridge" where
  "sendStatus b status = send b (Status (agentId b) status)"

definition sendAction :: "bridge \<Rightarrow> action_log_entry \<Rightarrow> bridge" where
  "sendAction b action = send b (Action (agentId b) action)"

text \<open>Settling a promise: only the first \<open>resolve\<close> counts.\<close>

definition resolve_promise :: "nat \<Rightarrow> bool \<Rightarrow> bool option list \<Rightarrow> bool option list" where
  "resolve_promise p v ps =
     (if p < length ps \<and> ps ! p = None then ps[p := Some v] else ps)"

text \<open>\<open>cleanup\<close> of \<open>requestApproval\<close>: clear this request's timeout and delete the table
  entry of its id.\<close>

definition approval_cleanup :: "nat \<Rightarrow> string \<Rightarrow> bridge \<Rightarrow> bridge" where
  "approval_cleanup p rid b =
     b\<lparr>approvalTimers := filter (\<lambda>t. fst t \<noteq> p) (approvalTimers b),
       pendingApprovals := AList.delete rid (pendingApprovals b)\<rparr>"

definition requestApproval :: "bridge \<Rightarrow> approval_request \<Rightarrow> bridge" where
  "requestApproval b request =
     (let p = length (promises b);
          b1 = b\<lparr>promises := promises b @ [None],
                 approvalTimers := approvalTimers b @ [(p, ar_id request)],
                 pendingApprovals := AList.update (ar_id request) p (pendingApprovals b)\<rparr>
      in send b1 (ApprovalRequestMsg (agentId b1) request))"

text \<open>The timeout of promise \<open>p\<close> fires after five minutes, if it is still armed: deny.\<close>

definition approval_timeout :: "bridge \<Rightarrow> nat \<Rightarrow> bridge" where
  "approval_timeout b p =
     (case map_of (approvalTimers b) p of
        None \<Rightarrow> b
      | Some rid \<Rightarrow>
          (let b1 = approval_cleanup p rid b
           in b1\<lparr>promises := resolve_promise p False (promises b1)\<rparr>))"

text \<open>\<open>handleMessage\<close>: an approval response goes to the handler stored under its request
  id; the handler's own test \<open>msg.requestId === request.id\<close> holds for the handler found
  there.\<close>

fun handleMessage :: "bridge \<Rightarrow> control_message \<Rightarrow> bridge" where
  "handleMessage b (ApprovalResponse requestId approved reason) =
     (case map_of (pendingApprovals b) requestId of
        None \<Rightarrow> b
      | Some p \<Rightarrow>
          (let b1 = approval_cleanup p requestId b
           in b1\<lparr>promises := resolve_promise p approved (promises b1)\<rparr>))"
| "handleMessage b msg = b"

definition stopHeartbeat :: "bridge \<Rightarrow> bridge" where
  "stopHeartbeat b = (if heartbeatTimer b then b\<lparr>heartbeatTimer := False\<rparr> else b)"

definition startHeartbeat :: "bridge \<Rightarrow> bridge" where
  "startHeartbeat b = (stopHeartbeat b)\<lparr>heartbeatTimer := True\<rparr>"

definition scheduleReconnect :: "bridge \<Rightarrow> bridge" where
  "scheduleReconnect b =
     (if closed b then b
      else
        (let b1 = b\<lparr>reconnectAttempt := reconnectAttempt b + 1\<rparr>;
             delay = min (1000 * 2 ^ (reconnectAttempt b1 - 1)) maxReconnectDelay
         in b1\<lparr>reconnectTimers := reconnectTimers b1 @ [delay]\<rparr>))"

text \<open>\<open>ws.close()\<close> on a socket that is not yet closed starts the closing handshake.\<close>

definition socket_close :: "nat \<Rightarrow> ready_state list \<Rightarrow> ready_state list" where
  "socket_close s ss =
     (if s < length ss \<and> ss ! s \<noteq> CLOSED then ss[s := CLOSING] else ss)"

definition bridge_close :: "bridge \<Rightarrow> bridge" where
  "bridge_close b =
     (let b1 = stopHeartbeat (b\<lparr>closed := True\<rparr>);
          b2 = (case ws b1 of None \<Rightarrow> b1
                | Some s \<Rightarrow> b1\<lparr>sockets := socket_close s (sockets b1)\<rparr>)
      in b2\<lparr>ws := None\<rparr>)"

text \<open>The handlers that \<open>connect\<close> installs on each socket it creates.\<close>

definition bridge_on_open :: "bridge \<Rightarrow> bridge" where
  "bridge_on_open b =
     (let b1 = startHeartbeat (b\<lparr>reconnectAttempt := 0\<rparr>)
      in b1\<lparr>callbackLog := callbackLog b1 @ [OnConnected]\<rparr>)"

definition bridge_on_message :: "bridge \<Rightarrow> control_message option \<Rightarrow> bridge" where
  "bridge_on_message b parsed =
     (case parsed of
        None \<Rightarrow> b
      | Some msg \<Rightarrow> b\<lparr>callbackLog := callbackLog b @ [OnCommand msg]\<rparr>)"

definition bridge_on_close :: "bridge \<Rightarrow> nat \<Rightarrow> string \<Rightarrow> bridge" where
  "bridge_on_close b code reason =
     (let b1 = stopHeartbeat b;
          b2 = b1\<lparr>callbackLog := callbackLog b1 @ [OnDisconnectedClose code reason]\<rparr>
      in scheduleReconnect b2)"

definition bridge_on_error :: "bridge \<Rightarrow> string \<Rightarrow> bridge" where
  "bridge_on_error b message = b\<lparr>callbackLog := callbackLog b @ [OnDisconnectedError message]\<rparr>"

text \<open>
  Everything that can happen to a bridge: a call of one of its methods, an event of one
  of its sockets (which runs the handler above after the socket changed its
  \<open>readyState\<close>), or a timer firing. A reconnect timer firing is a call of \<open>connect\<close>.
\<close>

datatype bridge_event =
    CallConnect
  | CallSend agent_message
  | CallSendHeartbeat string int
  | CallSendStatus agent_status_report
  | CallSendAction action_log_entry
  | CallRequestApproval approval_request
  | CallHandleMessage control_message
  | CallClose
  | WsOpen nat
  | WsMessage nat "control_message option"
  | WsClose nat nat string
  | WsError nat string
  | HeartbeatTick string int
  | ApprovalTimeout nat

fun bridge_step :: "bridge \<Rightarrow> bridge_event \<Rightarrow> bridge" where
  "bridge_step b CallConnect = connect b"
| "bridge_step b (CallSend msg) = send b msg"
| "bridge_step b (CallSendHeartbeat nowIso nowMs) = sendHeartbeat b nowIso nowMs"
| "bridge_step b (CallSendStatus status) = sendStatus b status"
| "bridge_step b (CallSendAction action) = sendAction b action"
| "bridge_step b (CallRequestApproval request) = requestApproval b request"
| "bridge_step b (CallHandleMessage msg) = handleMessage b msg"
| "bridge_step b CallClose = bridge_close b"
| "bridge_step b (WsOpen s) =
     (if s < length (sockets b) then bridge_on_open (b\<lparr>sockets := (sockets b)[s := OPEN]\<rparr>) else b)"
| "bridge_step b (WsMessage s parsed) =
     (if s < length (sockets b) then bridge_on_message b parsed else b)"
| "bridge_step b (WsClose s code reason) =
     (if s < length (sockets b)
      then bridge_on_close (b\<lparr>sockets := (sockets b)[s := CLOSED]\<rparr>) code reason else b)"
| "bridge_step b (WsError s message) =
     (if s < length (sockets b) then bridge_on_error b message else b)"
| "bridge_step b (HeartbeatTick nowIso nowMs) =
     (if heartbeatTimer b then sendHeartbeat b nowIso nowMs else b)"
| "bridge_step b (ApprovalTimeout p) = approval_timeout b p"

definition bridge_run :: "bridge \<Rightarrow> bridge_event list \<Rightarrow> bridge" where
  "bridge_run b evs = foldl bridge_step b evs"

text \<open>
  \<open>k\<close> failed connection attempts in a row: each time \<open>connect\<close> is called (as the
  reconnect timer does) and the socket it created closes without having opened (close
  code 1006, no reason), which runs the \<open>close\<close> handler.
\<close>

fun failed_attempts :: "nat \<Rightarrow> bridge \<Rightarrow> bridge" where
  "failed_attempts 0 b = b"
| "failed_attempts (Suc k) b =
     (let b0 = failed_attempts k b;
          b1 = bridge_step b0 CallConnect
      in bridge_step b1 (WsClose (length (sockets b0)) 1006 []))"

section \<open>Manifest (schema.ts) and VPS instance (provisioner.ts)\<close>

text \<open>
  The sections of the manifest whose fields the modelled code reads. The other sections
  (agent configuration, channels, financial controls, retention, goals, knowledge,
  metadata) are only stored and serialised as a whole: \<open>otherSections\<close>.
\<close>

record agent_identity =
  ident_id :: string
  ident_name :: string
  ownerId :: string

record repo_spec =
  repo_url :: string
  repo_branch :: string
  repo_path :: string
  setupCommand :: "string option"

record capabilities =
  webBrowsing :: bool
  repos :: "repo_spec list"
  systemPackages :: "string list"
  npmGlobals :: "string list"
  pipPackages :: "string list"

record resources =
  res_serverType :: string
  res_region :: string
  res_provider :: string

record control_plane =
  cp_url :: string
  cp_token :: string
  heartbeatIntervalSec :: nat

record manifest =
  identity :: agent_identity
  capabilities :: capabilities
  resources :: resources
  controlPlane :: control_plane
  otherSections :: js_value

datatype vps_status = Creating | VpsRunning | Stopping | Stopped | VpsError

record vps_instance =
  vi_id :: string
  vi_provider :: string
  vi_status :: vps_status
  ipv4 :: string
  ipv6 :: string
  vi_serverType :: string
  vi_region :: string
  vi_createdAt :: string
  vi_agentId :: string
  providerMeta :: "(string \<times> js_value) list"

section \<open>Fleet manager (fleet.ts)\<close>

datatype connection = Online | Offline | Unknown

record agent_record =
  manifest :: manifest
  rec_instance :: "vps_instance option"
  connection :: connection
  remoteAddress :: string
  lastStatus :: "agent_status_report option"
  deployedAt :: string
  lastHeartbeat :: "string option"
  uptimeSec :: real
  recentActions :: "action_log_entry list"
  recentErrors :: "(string \<times> string) list"
  totalActions :: nat
  totalSpend :: real

record fleet_manager =
  agents :: "string \<rightharpoonup> agent_record"
  dirty :: bool

definition MAX_RECENT_ACTIONS :: nat where
  "MAX_RECENT_ACTIONS = 200"

definition MAX_RECENT_ERRORS :: nat where
  "MAX_RECENT_ERRORS = 50"

definition markDirty :: "fleet_manager \<Rightarrow> fleet_manager" where
  "markDirty fm = fm\<lparr>dirty := True\<rparr>"

definition registerAgent ::
  "fleet_manager \<Rightarrow> manifest \<Rightarrow> vps_instance option \<Rightarrow> string \<Rightarrow> fleet_manager" where
  "registerAgent fm m inst nowIso =
     (let existing = agents fm (ident_id (identity m));
          rec =
            \<lparr>manifest = m,
             rec_instance = inst,
             connection = Unknown,
             remoteAddress = [],
             lastStatus = None,
             deployedAt = (case existing of Some e \<Rightarrow> deployedAt e | None \<Rightarrow> nowIso),
             lastHeartbeat = None,
             uptimeSec = 0,
             recentActions = (case existing of Some e \<Rightarrow> recentActions e | None \<Rightarrow> []),
             recentErrors = (case existing of Some e \<Rightarrow> recentErrors e | None \<Rightarrow> []),
             totalActions = (case existing of Some e \<Rightarrow> totalActions e | None \<Rightarrow> 0),
             totalSpend = (case existing of Some e \<Rightarrow> totalSpend e | None \<Rightarrow> 0)\<rparr>
      in markDirty (fm\<lparr>agents := (agents fm)(ident_id (identity m) \<mapsto> rec)\<rparr>))"


definition getAgent :: "fleet_manager \<Rightarrow> string \<Rightarrow> agent_record option" where
  "getAgent fm aid = agents fm aid"

text \<open>\<open>if (remoteAddress) record.remoteAddress = remoteAddress\<close>: an absent or empty address
  leaves the stored one.\<close>

definition updateAgentConnection ::
  "fleet_manager \<Rightarrow> string \<Rightarrow> connection \<Rightarrow> string option \<Rightarrow> fleet_manager" where
  "updateAgentConnection fm aid conn addr =
     (case agents fm aid of
        None \<Rightarrow> fm
      | Some r \<Rightarrow>
          (let r1 = r\<lparr>connection := conn\<rparr>;
               r2 = (case addr of
                       None \<Rightarrow> r1
                     | Some a \<Rightarrow> if a \<noteq> [] then r1\<lparr>remoteAddress := a\<rparr> else r1)
           in markDirty (fm\<lparr>agents := (agents fm)(aid \<mapsto> r2)\<rparr>)))"

definition updateHeartbeat :: "fleet_manager \<Rightarrow> string \<Rightarrow> real \<Rightarrow> string \<Rightarrow> fleet_manager" where
  "updateHeartbeat fm aid up nowIso =
     (case agents fm aid of
        None \<Rightarrow> fm
      | Some r \<Rightarrow>
          markDirty (fm\<lparr>agents :=
            (agents fm)(aid \<mapsto> r\<lparr>lastHeartbeat := Some nowIso, uptimeSec := up\<rparr>)\<rparr>))"

definition updateAgentStatus ::
  "fleet_manager \<Rightarrow> string \<Rightarrow> agent_status_report \<Rightarrow> fleet_manager" where
  "updateAgentStatus fm aid status =
     (case agents fm aid of
        None \<Rightarrow> fm
      | Some r \<Rightarrow> markDirty (fm\<lparr>agents := (agents fm)(aid \<mapsto> r\<lparr>lastStatus := Some status\<rparr>)\<rparr>))"

text \<open>\<open>action.details?.amount\<close>: \<open>undefined\<close> when there are no details or no such key.\<close>

definition details_amount :: "action_log_entry \<Rightarrow> js_value" where
  "details_amount action =
     (case details action of
        None \<Rightarrow> JUndefined
      | Some kvs \<Rightarrow> (case map_of kvs ''amount'' of None \<Rightarrow> JUndefined | Some v \<Rightarrow> v))"

text \<open>What one action adds to \<open>totalSpend\<close>:
  \<open>if (action.category === "spend" && action.details?.amount)
       record.totalSpend += Number(action.details.amount) || 0\<close>\<close>

definition spend_of :: "(js_value \<Rightarrow> js_number) \<Rightarrow> action_log_entry \<Rightarrow> real" where
  "spend_of coerce action =
     (if al_category action = Spend \<and> truthy (details_amount action)
      then or_zero (Number_js coerce (details_amount action)) else 0)"

definition recordAction ::
  "(js_value \<Rightarrow> js_number) \<Rightarrow> fleet_manager \<Rightarrow> string \<Rightarrow> action_log_entry \<Rightarrow> fleet_manager" where
  "recordAction coerce fm aid action =
     (case agents fm aid of
        None \<Rightarrow> fm
      | Some r \<Rightarrow>
          (let r1 = r\<lparr>recentActions := action # recentActions r\<rparr>;
               r2 = (if length (recentActions r1) > MAX_RECENT_ACTIONS
                     then r1\<lparr>recentActions := take MAX_RECENT_ACTIONS (recentActions r1)\<rparr>
                     else r1);
               r3 = r2\<lparr>totalActions := totalActions r2 + 1\<rparr>;
               r4 = (if al_category action = Spend \<and> truthy (details_amount action)
                     then r3\<lparr>totalSpend :=
                            totalSpend r3 + or_zero (Number_js coerce (details_amount action))\<rparr>
                     else r3)
           in markDirty (fm\<lparr>agents := (agents fm)(aid \<mapsto> r4)\<rparr>)))"

definition recordError :: "fleet_manager \<Rightarrow> string \<Rightarrow> string \<Rightarrow> string \<Rightarrow> fleet_manager" where
  "recordError fm aid message nowIso =
     (case agents fm aid of
        None \<Rightarrow> fm
      | Some r \<Rightarrow>
          (let r1 = r\<lparr>recentErrors := (nowIso, message) # recentErrors r\<rparr>;
               r2 = (if length (recentErrors r1) > MAX_RECENT_ERRORS
                     then r1\<lparr>recentErrors := take MAX_RECENT_ERRORS (recentErrors r1)\<rparr>
                     else r1)
           in markDirty (fm\<lparr>agents := (agents fm)(aid \<mapsto> r2)\<rparr>)))"

text \<open>Recording a list of actions for one agent, first to last.\<close>

fun recordActions ::
  "(js_value \<Rightarrow> js_number) \<Rightarrow> fleet_manager \<Rightarrow> string \<Rightarrow> action_log_entry list \<Rightarrow> fleet_manager" where
  "recordActions coerce fm aid [] = fm"
| "recordActions coerce fm aid (a # as) = recordActions coerce (recordAction coerce fm aid a) aid as"

text \<open>The claim's reading of the spend rule: the amount counts when it is a number.\<close>

fun numeric_amount :: "js_value \<Rightarrow> real option" where
  "numeric_amount (JNum (Fin x)) = Some x"
| "numeric_amount v = None"

section \<open>Approval manager (approvals.ts)\<close>

datatype approval_state = Pending | Approved | Denied | Expired

record pending_approval =
  pa_id :: string
  pa_agentId :: string
  pa_category :: approval_category
  pa_description :: string
  pa_amount :: "real option"
  pa_currency :: "string option"
  pa_createdAt :: string
  pa_expiresAt :: string
  pa_state :: approval_state
  respondedBy :: "string option"
  reason :: "string option"
  respondedAt :: "string option"

datatype approval_callback = OnNewApproval pending_approval | OnResolved pending_approval

text \<open>
  The approval objects are shared: the queue, the history, the callbacks and the callers
  of \<open>resolve\<close> all hold references to the same object, and \<open>resolve\<close> and \<open>expireStale\<close>
  mutate it in place. So the objects live in \<open>heap\<close>, a reference is an index into it, and
  \<open>queue\<close> (a \<open>Map\<close> from request id) and \<open>history\<close> hold references. The two optional
  callbacks are present or not; their invocations are logged with the object as it was
  when they were called.
\<close>

record approval_manager =
  heap :: "pending_approval list"
  queue :: "(string \<times> nat) list"
  history :: "nat list"
  has_onNewApproval :: bool
  has_onResolved :: bool
  callbackCalls :: "approval_callback list"

definition maxHistory :: nat where
  "maxHistory = 1000"

definition new_approval_manager :: "bool \<Rightarrow> bool \<Rightarrow> approval_manager" where
  "new_approval_manager onNew onRes =
     \<lparr>heap = [], queue = [], history = [], has_onNewApproval = onNew,
      has_onResolved = onRes, callbackCalls = []\<rparr>"

definition addToHistory :: "approval_manager \<Rightarrow> nat \<Rightarrow> approval_manager" where
  "addToHistory m r =
     (let m1 = m\<lparr>history := r # history m\<rparr>
      in if length (history m1) > maxHistory
         then m1\<lparr>history := take maxHistory (history m1)\<rparr> else m1)"

definition call_onResolved :: "approval_manager \<Rightarrow> pending_approval \<Rightarrow> approval_manager" where
  "call_onResolved m a =
     (if has_onResolved m then m\<lparr>callbackCalls := callbackCalls m @ [OnResolved a]\<rparr> else m)"

definition addRequest ::
  "approval_manager \<Rightarrow> string \<Rightarrow> approval_request \<Rightarrow> string \<Rightarrow> nat \<times> approval_manager" where
  "addRequest m aid request nowIso =
     (let approval =
            \<lparr>pa_id = ar_id request, pa_agentId = aid, pa_category = ar_category request,
             pa_description = ar_description request, pa_amount = ar_amount request,
             pa_currency = ar_currency request, pa_createdAt = nowIso,
             pa_expiresAt = ar_expiresAt request, pa_state = Pending,
             respondedBy = None, reason = None, respondedAt = None\<rparr>;
          r = length (heap m);
          m1 = m\<lparr>heap := heap m @ [approval],
                 queue := AList.update (ar_id request) r (queue m)\<rparr>;
          m2 = (if has_onNewApproval m1
                then m1\<lparr>callbackCalls := callbackCalls m1 @ [OnNewApproval approval]\<rparr>
                else m1)
      in (r, m2))"

text \<open>\<open>resolve\<close> returns the reference of the resolved object, or \<open>None\<close> for \<open>null\<close>. A queued
  reference always points into the heap (\<open>am_wf\<close> below); the model returns \<open>null\<close> for one
  that would not.\<close>

definition resolve ::
  "approval_manager \<Rightarrow> string \<Rightarrow> bool \<Rightarrow> string \<Rightarrow> string option \<Rightarrow> string
     \<Rightarrow> nat option \<times> approval_manager" where
  "resolve m requestId approved who why nowIso =
     (case map_of (queue m) requestId of
        None \<Rightarrow> (None, m)
      | Some r \<Rightarrow>
          if \<not> r < length (heap m) then (None, m)
          else if pa_state (heap m ! r) \<noteq> Pending then (None, m)
          else
            (let approval = (heap m ! r)
                   \<lparr>pa_state := (if approved then Approved else Denied),
                    respondedBy := Some who, reason := why, respondedAt := Some nowIso\<rparr>;
                 m1 = m\<lparr>heap := (heap m)[r := approval]\<rparr>;
                 m2 = m1\<lparr>queue := AList.delete requestId (queue m1)\<rparr>;
                 m3 = addToHistory m2 r
             in (Some r, call_onResolved m3 approval)))"

definition getApproval :: "approval_manager \<Rightarrow> string \<Rightarrow> nat option" where
  "getApproval m requestId = map_of (queue m) requestId"

text \<open>\<open>new Date(approval.expiresAt).getTime() < now\<close>: \<open>parseDate\<close> is \<open>Date\<close> parsing, with
  \<open>None\<close> for an invalid date, whose time is \<open>NaN\<close> and compares false.\<close>

definition is_stale :: "(string \<Rightarrow> int option) \<Rightarrow> int \<Rightarrow> pending_approval \<Rightarrow> bool" where
  "is_stale parseDate now a =
     (pa_state a = Pending \<and>
      (case parseDate (pa_expiresAt a) of None \<Rightarrow> False | Some t \<Rightarrow> t < now))"

text \<open>The body of the loop of \<open>expireStale\<close>, for the entry \<open>(id, r)\<close>.\<close>

definition expireEntry ::
  "(string \<Rightarrow> int option) \<Rightarrow> int \<Rightarrow> approval_manager \<Rightarrow> string \<times> nat \<Rightarrow> approval_manager" where
  "expireEntry parseDate now m e =
     (let r = snd e in
      if r < length (heap m) \<and> is_stale parseDate now (heap m ! r)
      then
        (let approval = (heap m ! r)\<lparr>pa_state := Expired\<rparr>;
             m1 = m\<lparr>heap := (heap m)[r := approval]\<rparr>;
             m2 = m1\<lparr>queue := AList.delete (fst e) (queue m1)\<rparr>;
             m3 = addToHistory m2 r
         in call_onResolved m3 approval)
      else m)"

text \<open>The loop deletes only the entry it is at, and the logged callbacks do not touch the
  queue, so iterating the \<open>Map\<close> visits exactly the entries it had at the start.\<close>

definition expireStale :: "(string \<Rightarrow> int option) \<Rightarrow> int \<Rightarrow> approval_manager \<Rightarrow> approval_manager" where
  "expireStale parseDate now m = foldl (expireEntry parseDate now) m (queue m)"

text \<open>The operations that change an approval manager.\<close>

datatype approval_op =
    AddRequest string approval_request string
  | Resolve string bool string "string option" string
  | ExpireStale int

fun approval_step ::
  "(string \<Rightarrow> int option) \<Rightarrow> approval_manager \<Rightarrow> approval_op \<Rightarrow> approval_manager" where
  "approval_step parseDate m (AddRequest aid request nowIso) = snd (addRequest m aid request nowIso)"
| "approval_step parseDate m (Resolve requestId approved who why nowIso) =
     snd (resolve m requestId approved who why nowIso)"
| "approval_step parseDate m (ExpireStale now) = expireStale parseDate now m"

text \<open>The references the scan of \<open>expireStale\<close> expires, in the order of the queue.\<close>

definition staleRefs :: "(string \<Rightarrow> int option) \<Rightarrow> int \<Rightarrow> approval_manager \<Rightarrow> nat list" where
  "staleRefs parseDate now m =
     filter (\<lambda>r. is_stale parseDate now (heap m ! r)) (map snd (queue m))"

text \<open>The entry at reference \<open>r\<close> exists and the scan at time \<open>now\<close> would expire it.\<close>

definition stale_at :: "(string \<Rightarrow> int option) \<Rightarrow> int \<Rightarrow> approval_manager \<Rightarrow> nat \<Rightarrow> bool" where
  "stale_at parseDate now m r \<longleftrightarrow> r < length (heap m) \<and> is_stale parseDate now (heap m ! r)"

text \<open>Well-formed manager states: the queue is a \<open>Map\<close> (one entry per id), each object is
  queued at most once, queued references point into the heap, and the history is within
  its bound. Every state reached from
  a new manager is well-formed (\<open>am_wf_step\<close>).\<close>

definition am_wf :: "approval_manager \<Rightarrow> bool" where
  "am_wf m \<longleftrightarrow>
     distinct (map fst (queue m)) \<and> distinct (map snd (queue m)) \<and>
     list_all (\<lambda>e. snd e < length (heap m)) (queue m) \<and>
     length (history m) \<le> maxHistory"

section \<open>Control-plane server (control-plane.ts)\<close>

record control_plane_config =
  wsPath :: string
  authToken :: string

text \<open>What the handlers read of an incoming request: the path and the query of
  \<open>new URL(req.url, ...)\<close>, the \<open>authorization\<close> header and the peer address.
  \<open>searchParams.get(k)\<close> is the first value of \<open>k\<close>, or \<open>null\<close>.\<close>

record upgrade_request =
  pathname :: string
  searchParams :: "(string \<times> string) list"
  authorization :: "string option"
  req_remoteAddress :: "string option"

record connected_agent =
  ca_agentId :: string
  ca_ws :: nat
  connectedAt :: string
  ca_lastHeartbeat :: string
  ca_remoteAddress :: string

text \<open>A server-side WebSocket: its \<open>readyState\<close> and, once \<open>handleConnection\<close> has installed
  its handlers on it, the agent id those closures captured.\<close>

record server_socket =
  readyState :: ready_state
  boundAgent :: "string option"

text \<open>
  The server with the two managers it holds references to, the sockets it has accepted
  (a socket is its index), the \<open>ws.close(code, reason)\<close> calls it made, the frames it sent
  and the raw HTTP status lines it wrote to refused upgrades.
\<close>

record control_plane_server =
  config :: control_plane_config
  cp_agents :: "(string \<times> connected_agent) list"
  fleet :: fleet_manager
  approvals :: approval_manager
  cp_sockets :: "server_socket list"
  closeCalls :: "(nat \<times> nat \<times> string) list"
  sentFrames :: "(nat \<times> control_message) list"
  httpRejections :: "nat list"

definition new_server ::
  "control_plane_config \<Rightarrow> fleet_manager \<Rightarrow> approval_manager \<Rightarrow> control_plane_server" where
  "new_server cfg fm am =
     \<lparr>config = cfg, cp_agents = [], fleet = fm, approvals = am, cp_sockets = [],
      closeCalls = [], sentFrames = [], httpRejections = []\<rparr>"

datatype admission = NotHandled | HttpReject nat | WsClosed nat string | Admitted string

text \<open>The decision of the \<open>upgrade\<close> handler that \<open>attach\<close> installs.\<close>

definition attach_token :: "upgrade_request \<Rightarrow> string option" where
  "attach_token req =
     (case map_of (searchParams req) ''token'' of
        Some t \<Rightarrow> Some t
      | None \<Rightarrow> map_option (replace_first ''Bearer '' []) (authorization req))"

definition attach_admission :: "control_plane_config \<Rightarrow> upgrade_request \<Rightarrow> admission" where
  "attach_admission cfg req =
     (if \<not> startsWith (pathname req) (wsPath cfg) then NotHandled
      else if attach_token req \<noteq> Some (authToken cfg) then HttpReject 401
      else
        (case map_of (searchParams req) ''agentId'' of
           None \<Rightarrow> HttpReject 400
         | Some a \<Rightarrow> if a = [] then HttpReject 400 else Admitted a))"

text \<open>The decision of the \<open>connection\<close> handler of \<open>startStandalone\<close>.\<close>

definition standalone_admission :: "control_plane_config \<Rightarrow> upgrade_request \<Rightarrow> admission" where
  "standalone_admission cfg req =
     (let aid = (case map_of (searchParams req) ''agentId'' of None \<Rightarrow> [] | Some a \<Rightarrow> a);
          token = (case map_of (searchParams req) ''token'' of None \<Rightarrow> [] | Some t \<Rightarrow> t)
      in if token \<noteq> authToken cfg \<or> aid = [] then WsClosed 4001 ''Unauthorized''
         else Admitted aid)"

text \<open>\<open>ws.close(code, reason)\<close> on a server-side socket.\<close>

definition server_socket_close :: "nat \<Rightarrow> server_socket list \<Rightarrow> server_socket list" where
  "server_socket_close s ss =
     (if s < length ss \<and> readyState (ss ! s) \<noteq> CLOSED
      then ss[s := (ss ! s)\<lparr>readyState := CLOSING\<rparr>] else ss)"

definition ws_close ::
  "control_plane_server \<Rightarrow> nat \<Rightarrow> nat \<Rightarrow> string \<Rightarrow> control_plane_server" where
  "ws_close srv s code why =
     srv\<lparr>closeCalls := closeCalls srv @ [(s, code, why)],
         cp_sockets := server_socket_close s (cp_sockets srv)\<rparr>"

text \<open>The socket that the WebSocket library hands over after a successful handshake.\<close>

definition accept_socket :: "control_plane_server \<Rightarrow> nat \<times> control_plane_server" where
  "accept_socket srv =
     (length (cp_sockets srv),
      srv\<lparr>cp_sockets := cp_sockets srv @ [\<lparr>readyState = OPEN, boundAgent = None\<rparr>]\<rparr>)"

definition handleConnection ::
  "control_plane_server \<Rightarrow> nat \<Rightarrow> string \<Rightarrow> upgrade_request \<Rightarrow> string \<Rightarrow> control_plane_server" where
  "handleConnection srv s aid req nowIso =
     (let addr = (case req_remoteAddress req of None \<Rightarrow> ''unknown'' | Some a \<Rightarrow> a);
          conn = \<lparr>ca_agentId = aid, ca_ws = s, connectedAt = nowIso,
                  ca_lastHeartbeat = nowIso, ca_remoteAddress = addr\<rparr>;
          srv1 = (case map_of (cp_agents srv) aid of
                    None \<Rightarrow> srv
                  | Some existing \<Rightarrow> ws_close srv (ca_ws existing) 4000 ''Replaced by new connection'');
          srv2 = srv1\<lparr>cp_agents := AList.update aid conn (cp_agents srv1)\<rparr>;
          srv3 = srv2\<lparr>fleet := updateAgentConnection (fleet srv2) aid Online (Some addr)\<rparr>
      in srv3\<lparr>cp_sockets := (cp_sockets srv3)[s := (cp_sockets srv3 ! s)\<lparr>boundAgent := Some aid\<rparr>]\<rparr>)"

definition attach_upgrade ::
  "control_plane_server \<Rightarrow> upgrade_request \<Rightarrow> string \<Rightarrow> control_plane_server" where
  "attach_upgrade srv req nowIso =
     (case attach_admission (config srv) req of
        NotHandled \<Rightarrow> srv
      | HttpReject code \<Rightarrow> srv\<lparr>httpRejections := httpRejections srv @ [code]\<rparr>
      | WsClosed code why \<Rightarrow> srv
      | Admitted aid \<Rightarrow>
          (let (s, srv1) = accept_socket srv in handleConnection srv1 s aid req nowIso))"

definition standalone_connection ::
  "control_plane_server \<Rightarrow> upgrade_request \<Rightarrow> string \<Rightarrow> control_plane_server" where
  "standalone_connection srv req nowIso =
     (let (s, srv1) = accept_socket srv
      in case standalone_admission (config srv1) req of
           Admitted aid \<Rightarrow> handleConnection srv1 s aid req nowIso
         | WsClosed code why \<Rightarrow> ws_close srv1 s code why
         | NotHandled \<Rightarrow> srv1
         | HttpReject code \<Rightarrow> srv1)"

text \<open>\<open>handleAgentMessage\<close>; the agent id is the one of the connection, not the one inside
  the message.\<close>

fun handleAgentMessage ::
  "(js_value \<Rightarrow> js_number) \<Rightarrow> control_plane_server \<Rightarrow> string \<Rightarrow> agent_message \<Rightarrow> string
     \<Rightarrow> control_plane_server" where
  "handleAgentMessage coerce srv aid (Heartbeat a ts up) nowIso =
     (let srv1 = (case map_of (cp_agents srv) aid of
                    None \<Rightarrow> srv
                  | Some conn \<Rightarrow>
                      srv\<lparr>cp_agents :=
                        AList.update aid (conn\<lparr>ca_lastHeartbeat := nowIso\<rparr>) (cp_agents srv)\<rparr>)
      in srv1\<lparr>fleet := updateHeartbeat (fleet srv1) aid up nowIso\<rparr>)"
| "handleAgentMessage coerce srv aid (Status a status) nowIso =
     srv\<lparr>fleet := updateAgentStatus (fleet srv) aid status\<rparr>"
| "handleAgentMessage coerce srv aid (Action a action) nowIso =
     srv\<lparr>fleet := recordAction coerce (fleet srv) aid action\<rparr>"
| "handleAgentMessage coerce srv aid (ApprovalRequestMsg a request) nowIso =
     srv\<lparr>approvals := snd (addRequest (approvals srv) aid request nowIso)\<rparr>"
| "handleAgentMessage coerce srv aid (ErrorMsg a message) nowIso =
     srv\<lparr>fleet := recordError (fleet srv) aid message nowIso\<rparr>"

text \<open>The \<open>message\<close> handler: a frame that does not parse is ignored.\<close>

definition server_on_message ::
  "(js_value \<Rightarrow> js_number) \<Rightarrow> control_plane_server \<Rightarrow> nat \<Rightarrow> agent_message option \<Rightarrow> string
     \<Rightarrow> control_plane_server" where
  "server_on_message coerce srv s parsed nowIso =
     (if s < length (cp_sockets srv) then
        (case (boundAgent (cp_sockets srv ! s), parsed) of
           (Some aid, Some msg) \<Rightarrow> handleAgentMessage coerce srv aid msg nowIso
         | _ \<Rightarrow> srv)
      else srv)"

text \<open>The \<open>close\<close> event of socket \<open>s\<close>: the socket is closed, then the handler runs:
  \<open>if (this.agents.get(agentId)?.ws === ws) { delete; mark offline }\<close>.\<close>

definition server_on_close :: "control_plane_server \<Rightarrow> nat \<Rightarrow> control_plane_server" where
  "server_on_close srv s =
     (if s < length (cp_sockets srv) then
        (let srv1 = srv\<lparr>cp_sockets := (cp_sockets srv)[s := (cp_sockets srv ! s)\<lparr>readyState := CLOSED\<rparr>]\<rparr>
         in case boundAgent (cp_sockets srv ! s) of
              None \<Rightarrow> srv1
            | Some aid \<Rightarrow>
                if map_option ca_ws (map_of (cp_agents srv1) aid) = Some s
                then srv1\<lparr>cp_agents := AList.delete aid (cp_agents srv1),
                          fleet := updateAgentConnection (fleet srv1) aid Offline None\<rparr>
                else srv1)
      else srv)"

definition sendToAgent ::
  "control_plane_server \<Rightarrow> string \<Rightarrow> control_message \<Rightarrow> bool \<times> control_plane_server" where
  "sendToAgent srv aid msg =
     (case map_of (cp_agents srv) aid of
        None \<Rightarrow> (False, srv)
      | Some conn \<Rightarrow>
          if \<not> (ca_ws conn < length (cp_sockets srv) \<and>
                 readyState (cp_sockets srv ! ca_ws conn) = OPEN)
          then (False, srv)
          else (True, srv\<lparr>sentFrames := sentFrames srv @ [(ca_ws conn, msg)]\<rparr>))"

definition sendApprovalResponse ::
  "control_plane_server \<Rightarrow> string \<Rightarrow> string \<Rightarrow> bool \<Rightarrow> string option
     \<Rightarrow> bool \<times> control_plane_server" where
  "sendApprovalResponse srv aid requestId approved why =
     sendToAgent srv aid (ApprovalResponse requestId approved why)"

definition isAgentOnline :: "control_plane_server \<Rightarrow> string \<Rightarrow> bool" where
  "isAgentOnline srv aid =
     (case map_of (cp_agents srv) aid of
        None \<Rightarrow> False
      | Some conn \<Rightarrow> ca_ws conn < length (cp_sockets srv) \<and>
                     readyState (cp_sockets srv ! ca_ws conn) = OPEN)"

definition getConnectedAgentIds :: "control_plane_server \<Rightarrow> string list" where
  "getConnectedAgentIds srv = map fst (cp_agents srv)"

definition server_close :: "control_plane_server \<Rightarrow> control_plane_server" where
  "server_close srv =
     (let srv1 = foldl (\<lambda>acc conn. ws_close acc (ca_ws conn) 1001 ''Control plane shutting down'')
                   srv (map snd (cp_agents srv))
      in srv1\<lparr>cp_agents := []\<rparr>)"

text \<open>Everything that can happen to the server.\<close>

datatype server_event =
    Upgrade upgrade_request string
  | Connection upgrade_request string
  | SocketMessage nat "agent_message option" string
  | SocketClose nat
  | SocketError nat string
  | CallSendToAgent string control_message
  | CallServerClose

fun server_step ::
  "(js_value \<Rightarrow> js_number) \<Rightarrow> control_plane_server \<Rightarrow> server_event \<Rightarrow> control_plane_server" where
  "server_step coerce srv (Upgrade req nowIso) = attach_upgrade srv req nowIso"
| "server_step coerce srv (Connection req nowIso) = standalone_connection srv req nowIso"
| "server_step coerce srv (SocketMessage s parsed nowIso) = server_on_message coerce srv s parsed nowIso"
| "server_step coerce srv (SocketClose s) = server_on_close srv s"
| "server_step coerce srv (SocketError s message) = srv"
| "server_step coerce srv (CallSendToAgent aid msg) = snd (sendToAgent srv aid msg)"
| "server_step coerce srv CallServerClose = server_close srv"

definition server_run ::
  "(js_value \<Rightarrow> js_number) \<Rightarrow> control_plane_server \<Rightarrow> server_event list \<Rightarrow> control_plane_server" where
  "server_run coerce srv evs = foldl (server_step coerce) srv evs"

text \<open>A live session of agent \<open>aid\<close>: an open socket carrying the handlers of that agent.\<close>

definition live :: "control_plane_server \<Rightarrow> string \<Rightarrow> nat \<Rightarrow> bool" where
  "live srv aid s \<longleftrightarrow>
     s < length (cp_sockets srv) \<and> readyState (cp_sockets srv ! s) = OPEN \<and>
     boundAgent (cp_sockets srv ! s) = Some aid"

text \<open>Every live session is the one the map holds for its agent.\<close>

definition one_session :: "control_plane_server \<Rightarrow> bool" where
  "one_session srv \<longleftrightarrow>
     (\<forall>aid s. live srv aid s \<longrightarrow> map_option ca_ws (map_of (cp_agents srv) aid) = Some s)"

section \<open>Cloud-init script generator (cloud-init.ts)\<close>















section \<open>Provisioner (provisioner.ts)\<close>




section \<open>Dashboard API (dashboard-api.ts)\<close>















section \<open>Concrete states and inputs\<close>

text \<open>The scenario of the specification: agent \<open>U1\<close>, token \<open>T\<close>, a control plane on
  \<open>ws://localhost:18790\<close>. These are the inputs at which the theorems below are
  instantiated.\<close>

definition example_bridge :: bridge where
  "example_bridge = connect (new_bridge ''U1'' 0)"

definition example_request :: approval_request where
  "example_request =
     \<lparr>ar_id = ''R1'', ar_category = SpendApproval, ar_description = ''buy a domain'',
      ar_amount = Some 12.5, ar_currency = Some ''USD'',
      ar_expiresAt = ''2026-01-01T00:01:00.000Z''\<rparr>"

definition no_coercion :: "js_value \<Rightarrow> js_number" where
  "no_coercion v = NaN"

definition example_manifest :: manifest where
  "example_manifest =
     \<lparr>identity = \<lparr>ident_id = ''U1'', ident_name = ''a1'', ownerId = ''op''\<rparr>,
      capabilities = \<lparr>webBrowsing = False, repos = [], systemPackages = [],
                      npmGlobals = [], pipPackages = []\<rparr>,
      resources = \<lparr>res_serverType = ''cpx21'', res_region = ''nbg1'',
                   res_provider = ''docker-local''\<rparr>,
      controlPlane = \<lparr>cp_url = ''ws://localhost:18790'', cp_token = ''T'',
                      heartbeatIntervalSec = 30\<rparr>,
      otherSections = JNull\<rparr>"



definition new_fleet :: fleet_manager where
  "new_fleet = \<lparr>agents = Map.empty, dirty = False\<rparr>"

definition example_fleet :: fleet_manager where
  "example_fleet = registerAgent new_fleet example_manifest None ''2026-01-01T00:00:00.000Z''"

definition spend_true :: action_log_entry where
  "spend_true =
     \<lparr>al_id = ''A1'', al_timestamp = ''2026-01-01T00:00:01.000Z'', al_category = Spend,
      summary = ''bought'', details = Some [(''amount'', JBool True)], durationMs = None\<rparr>"

definition spend_three :: action_log_entry where
  "spend_three =
     \<lparr>al_id = ''A2'', al_timestamp = ''2026-01-01T00:00:02.000Z'', al_category = Spend,
      summary = ''bought'', details = Some [(''amount'', JNum (Fin 3))], durationMs = None\<rparr>"

definition example_parseDate :: "string \<Rightarrow> int option" where
  "example_parseDate s =
     (if s = ''2026-01-01T00:01:00.000Z'' then Some 1767225660000 else None)"

definition example_approvals :: approval_manager where
  "example_approvals =
     snd (addRequest (new_approval_manager True True) ''U1'' example_request
            ''2026-01-01T00:00:00.000Z'')"

definition example_config :: control_plane_config where
  "example_config = \<lparr>wsPath = ''/moltagent/ws'', authToken = ''T''\<rparr>"

definition request_with_header :: upgrade_request where
  "request_with_header =
     \<lparr>pathname = ''/moltagent/ws'', searchParams = [(''agentId'', ''U1'')],
      authorization = Some ''Bearer T'', req_remoteAddress = Some ''10.0.0.7''\<rparr>"

definition request_with_query :: upgrade_request where
  "request_with_query =
     \<lparr>pathname = ''/moltagent/ws'', searchParams = [(''agentId'', ''U1''), (''token'', ''T'')],
      authorization = None, req_remoteAddress = Some ''10.0.0.7''\<rparr>"



definition example_server :: control_plane_server where
  "example_server = new_server example_config example_fleet (new_approval_manager True True)"

text \<open>The server after \<open>U1\<close> has connected once: its session is socket 0.\<close>

definition connected_server :: control_plane_server where
  "connected_server = attach_upgrade example_server request_with_query ''2026-01-01T00:00:05.000Z''"

text \<open>... and after \<open>U1\<close> has connected a second time: socket 1 replaces socket 0.\<close>

definition reconnected_server :: control_plane_server where
  "reconnected_server =
     attach_upgrade connected_server request_with_header ''2026-01-01T00:00:09.000Z''"












section \<open>The bridge: reconnection and sending\<close>

lemma scheduleReconnect_closed: "closed b \<Longrightarrow> scheduleReconnect b = b"
  by (simp add: scheduleReconnect_def)

lemma scheduleReconnect_open:
  "\<not> closed b \<Longrightarrow> scheduleReconnect b =
     b\<lparr>reconnectAttempt := reconnectAttempt b + 1,
       reconnectTimers := reconnectTimers b @ [min (1000 * 2 ^ reconnectAttempt b) 60000]\<rparr>"
  by (simp add: scheduleReconnect_def Let_def maxReconnectDelay_def)

lemma ws_close_event:
  assumes "\<not> closed b" "s < length (sockets b)"
  shows "bridge_step b (WsClose s code why) =
           b\<lparr>sockets := (sockets b)[s := CLOSED],
             heartbeatTimer := False,
             callbackLog := callbackLog b @ [OnDisconnectedClose code why],
             reconnectAttempt := reconnectAttempt b + 1,
             reconnectTimers := reconnectTimers b @ [min (1000 * 2 ^ reconnectAttempt b) 60000]\<rparr>"
  using assms
  by (simp add: bridge_on_close_def Let_def stopHeartbeat_def scheduleReconnect_def
        maxReconnectDelay_def)

lemma ws_close_event_closed:
  assumes "closed b"
  shows "reconnectTimers (bridge_step b (WsClose s code why)) = reconnectTimers b \<and>
         reconnectAttempt (bridge_step b (WsClose s code why)) = reconnectAttempt b"
  using assms
  by (simp add: bridge_on_close_def Let_def stopHeartbeat_def scheduleReconnect_def)

lemma failed_attempt_step:
  assumes "\<not> closed b"
  shows "bridge_step (bridge_step b CallConnect) (WsClose (length (sockets b)) code why) =
           b\<lparr>sockets := sockets b @ [CLOSED],
             ws := Some (length (sockets b)),
             heartbeatTimer := False,
             callbackLog := callbackLog b @ [OnDisconnectedClose code why],
             reconnectAttempt := reconnectAttempt b + 1,
             reconnectTimers := reconnectTimers b @ [min (1000 * 2 ^ reconnectAttempt b) 60000]\<rparr>"
proof -
  have c: "bridge_step b CallConnect =
             b\<lparr>sockets := sockets b @ [CONNECTING], ws := Some (length (sockets b))\<rparr>"
    using assms by (simp add: connect_def)
  show ?thesis
    unfolding c
    by (subst ws_close_event) (use assms in simp_all)
qed

lemma failed_attempts_fields:
  "\<not> closed b \<Longrightarrow>
     \<not> closed (failed_attempts k b) \<and>
     reconnectAttempt (failed_attempts k b) = reconnectAttempt b + k \<and>
     reconnectTimers (failed_attempts k b) =
       reconnectTimers b @ map (\<lambda>n. min (1000 * 2 ^ (reconnectAttempt b + n - 1)) 60000) [1..<Suc k]"
proof (induction k)
  case 0
  then show ?case by simp
next
  case (Suc k)
  then have nc: "\<not> closed (failed_attempts k b)" by simp
  show ?case
    using Suc failed_attempt_step[OF nc, of 1006 "[]"]
    by (simp add: Let_def)
qed

lemma send_frame: "closed (send b m) = closed b \<and> reconnectTimers (send b m) = reconnectTimers b
   \<and> sockets (send b m) = sockets b \<and> ws (send b m) = ws b"
  by (simp add: send_def split: option.splits)

lemma handleMessage_frame: "closed (handleMessage b m) = closed b \<and>
   reconnectTimers (handleMessage b m) = reconnectTimers b
   \<and> sockets (handleMessage b m) = sockets b \<and> ws (handleMessage b m) = ws b"
  by (cases m) (auto simp: approval_cleanup_def Let_def split: option.splits)

lemma closed_step:
  assumes "closed b" "ws b = None"
  shows "closed (bridge_step b ev) \<and> reconnectTimers (bridge_step b ev) = reconnectTimers b
     \<and> length (sockets (bridge_step b ev)) = length (sockets b) \<and> ws (bridge_step b ev) = None"
proof (cases ev)
  case (CallHandleMessage m)
  then show ?thesis using assms handleMessage_frame[of b m] by simp
next
  case (CallRequestApproval r)
  then show ?thesis using assms by (simp add: requestApproval_def Let_def send_frame)
qed (use assms in \<open>auto simp: connect_def send_frame sendHeartbeat_def sendStatus_def sendAction_def
        bridge_close_def stopHeartbeat_def startHeartbeat_def
        bridge_on_open_def bridge_on_message_def bridge_on_close_def bridge_on_error_def
        scheduleReconnect_def approval_timeout_def approval_cleanup_def Let_def
        split: option.splits\<close>)

lemma closed_run:
  "closed b \<Longrightarrow> ws b = None \<Longrightarrow>
     closed (bridge_run b evs) \<and> reconnectTimers (bridge_run b evs) = reconnectTimers b
     \<and> length (sockets (bridge_run b evs)) = length (sockets b) \<and> ws (bridge_run b evs) = None"
proof (induction evs arbitrary: b)
  case Nil
  then show ?case by (simp add: bridge_run_def)
next
  case (Cons ev evs)
  have s: "closed (bridge_step b ev) \<and> reconnectTimers (bridge_step b ev) = reconnectTimers b
     \<and> length (sockets (bridge_step b ev)) = length (sockets b) \<and> ws (bridge_step b ev) = None"
    using closed_step[OF Cons.prems] .
  from Cons.IH[of "bridge_step b ev"] s show ?case by (simp add: bridge_run_def)
qed

lemma bridge_close_fields:
  "closed (bridge_close b) \<and> ws (bridge_close b) = None \<and>
   reconnectTimers (bridge_close b) = reconnectTimers b \<and>
   length (sockets (bridge_close b)) = length (sockets b)"
  by (simp add: bridge_close_def Let_def stopHeartbeat_def socket_close_def split: option.splits)

lemma on_open_attempt: "reconnectAttempt (bridge_on_open b) = 0"
  by (simp add: bridge_on_open_def Let_def startHeartbeat_def stopHeartbeat_def)

text \<open>
  Claim C7. When a socket of a bridge that is not closed fires its \<open>close\<close> event, the
  handler stops the heartbeat, reports the disconnect, raises the attempt counter to \<open>n\<close>
  and schedules \<open>connect\<close> after \<open>min (1000 * 2 ^ (n - 1)) 60000\<close> milliseconds, which is
  what \<open>scheduleReconnect\<close> does; \<open>k\<close> failed connection attempts in a row from attempt 0
  schedule the delays for \<open>n = 1, ..., k\<close>; the \<open>open\<close> event of a socket resets the counter
  to 0; on a closed bridge \<open>connect\<close> and \<open>scheduleReconnect\<close> do nothing and a \<open>close\<close>
  event schedules nothing, and after \<open>close()\<close> no sequence of calls, socket events and
  timers schedules a reconnect or creates a socket.
\<close>

theorem reconnect_backoff:
  "(\<not> closed b \<and> s < length (sockets b) \<longrightarrow>
      reconnectAttempt (bridge_step b (WsClose s code why)) = reconnectAttempt b + 1 \<and>
      reconnectTimers (bridge_step b (WsClose s code why)) =
        reconnectTimers b @
          [min (1000 * 2 ^ (reconnectAttempt (bridge_step b (WsClose s code why)) - 1)) 60000] \<and>
      \<not> heartbeatTimer (bridge_step b (WsClose s code why)) \<and>
      callbackLog (bridge_step b (WsClose s code why)) =
        callbackLog b @ [OnDisconnectedClose code why]) \<and>
   (\<not> closed b \<longrightarrow>
      reconnectAttempt (scheduleReconnect b) = reconnectAttempt b + 1 \<and>
      reconnectTimers (scheduleReconnect b) =
        reconnectTimers b @ [min (1000 * 2 ^ (reconnectAttempt (scheduleReconnect b) - 1)) 60000]) \<and>
   (\<not> closed b \<and> reconnectAttempt b = 0 \<longrightarrow>
      reconnectTimers (failed_attempts k b) =
        reconnectTimers b @ map (\<lambda>n. min (1000 * 2 ^ (n - 1)) 60000) [1..<Suc k]) \<and>
   (s < length (sockets b) \<longrightarrow> reconnectAttempt (bridge_step b (WsOpen s)) = 0) \<and>
   reconnectAttempt (bridge_on_open b) = 0 \<and>
   (closed b \<longrightarrow>
      connect b = b \<and> scheduleReconnect b = b \<and>
      reconnectTimers (bridge_step b (WsClose s code why)) = reconnectTimers b) \<and>
   closed (bridge_run (bridge_close b) evs) \<and>
   reconnectTimers (bridge_run (bridge_close b) evs) = reconnectTimers b \<and>
   length (sockets (bridge_run (bridge_close b) evs)) = length (sockets b)"
proof -
  have e: "\<not> closed b \<and> s < length (sockets b) \<longrightarrow>
      reconnectAttempt (bridge_step b (WsClose s code why)) = reconnectAttempt b + 1 \<and>
      reconnectTimers (bridge_step b (WsClose s code why)) =
        reconnectTimers b @
          [min (1000 * 2 ^ (reconnectAttempt (bridge_step b (WsClose s code why)) - 1)) 60000] \<and>
      \<not> heartbeatTimer (bridge_step b (WsClose s code why)) \<and>
      callbackLog (bridge_step b (WsClose s code why)) =
        callbackLog b @ [OnDisconnectedClose code why]"
  proof
    assume h: "\<not> closed b \<and> s < length (sockets b)"
    then have "bridge_step b (WsClose s code why) =
           b\<lparr>sockets := (sockets b)[s := CLOSED],
             heartbeatTimer := False,
             callbackLog := callbackLog b @ [OnDisconnectedClose code why],
             reconnectAttempt := reconnectAttempt b + 1,
             reconnectTimers := reconnectTimers b @ [min (1000 * 2 ^ reconnectAttempt b) 60000]\<rparr>"
      using ws_close_event[of b s code why] by blast
    then show "reconnectAttempt (bridge_step b (WsClose s code why)) = reconnectAttempt b + 1 \<and>
      reconnectTimers (bridge_step b (WsClose s code why)) =
        reconnectTimers b @
          [min (1000 * 2 ^ (reconnectAttempt (bridge_step b (WsClose s code why)) - 1)) 60000] \<and>
      \<not> heartbeatTimer (bridge_step b (WsClose s code why)) \<and>
      callbackLog (bridge_step b (WsClose s code why)) =
        callbackLog b @ [OnDisconnectedClose code why]"
      by simp
  qed
  have a: "\<not> closed b \<longrightarrow>
      reconnectAttempt (scheduleReconnect b) = reconnectAttempt b + 1 \<and>
      reconnectTimers (scheduleReconnect b) =
        reconnectTimers b @ [min (1000 * 2 ^ (reconnectAttempt (scheduleReconnect b) - 1)) 60000]"
    by (simp add: scheduleReconnect_open)
  have f: "\<not> closed b \<and> reconnectAttempt b = 0 \<longrightarrow>
      reconnectTimers (failed_attempts k b) =
        reconnectTimers b @ map (\<lambda>n. min (1000 * 2 ^ (n - 1)) 60000) [1..<Suc k]"
    using failed_attempts_fields[of b k] by simp
  have o: "s < length (sockets b) \<longrightarrow> reconnectAttempt (bridge_step b (WsOpen s)) = 0"
    by (simp add: on_open_attempt)
  have o2: "reconnectAttempt (bridge_on_open b) = 0"
    by (rule on_open_attempt)
  have c: "closed b \<longrightarrow>
      connect b = b \<and> scheduleReconnect b = b \<and>
      reconnectTimers (bridge_step b (WsClose s code why)) = reconnectTimers b"
    using ws_close_event_closed[of b s code why]
    by (simp add: connect_def scheduleReconnect_closed)
  have d1: "closed (bridge_run (bridge_close b) evs)"
    and d2: "reconnectTimers (bridge_run (bridge_close b) evs) = reconnectTimers b"
    and d3: "length (sockets (bridge_run (bridge_close b) evs)) = length (sockets b)"
    using closed_run[of "bridge_close b" evs] bridge_close_fields[of b] by simp_all
  show ?thesis
    by (intro conjI; fact e a f o o2 c d1 d2 d3)
qed

lemma send_not_open: "\<not> ws_open b \<Longrightarrow> send b msg = b"
  by (auto simp: ws_open_def send_def split: option.splits)

lemma ws_open_wire_irrelevant:
  "ws_open (b\<lparr>promises := p, approvalTimers := t, pendingApprovals := q\<rparr>) = ws_open b"
  by (simp add: ws_open_def split: option.splits)

text \<open>
  Claim C9. While the bridge has no socket, or its socket is not \<open>OPEN\<close>, \<open>send\<close> returns
  the bridge unchanged: nothing reaches the wire, nothing is stored for later, and the
  bridge then behaves, under every later sequence of events, as if \<open>send\<close> had not been
  called. The same holds for \<open>sendHeartbeat\<close>, \<open>sendStatus\<close> and \<open>sendAction\<close>; and
  \<open>requestApproval\<close> only registers its promise, timeout and table entry: its frame does
  not reach the wire.
\<close>

theorem send_discards_when_not_open:
  assumes "\<not> ws_open b"
  shows "send b msg = b \<and>
         sendHeartbeat b nowIso nowMs = b \<and>
         sendStatus b status = b \<and>
         sendAction b action = b \<and>
         requestApproval b request =
           b\<lparr>promises := promises b @ [None],
             approvalTimers := approvalTimers b @ [(length (promises b), ar_id request)],
             pendingApprovals :=
               AList.update (ar_id request) (length (promises b)) (pendingApprovals b)\<rparr> \<and>
         wire (requestApproval b request) = wire b \<and>
         bridge_run (send b msg) evs = bridge_run b evs"
proof -
  have 1: "send b m = b" for m using assms by (rule send_not_open)
  have 2: "wire (requestApproval b request) = wire b"
    using assms by (simp add: requestApproval_def Let_def send_not_open ws_open_wire_irrelevant)
  have 3: "requestApproval b request =
           b\<lparr>promises := promises b @ [None],
             approvalTimers := approvalTimers b @ [(length (promises b), ar_id request)],
             pendingApprovals :=
               AList.update (ar_id request) (length (promises b)) (pendingApprovals b)\<rparr>"
    using assms by (simp add: requestApproval_def Let_def send_not_open ws_open_wire_irrelevant)
  from 1 2 3 show ?thesis
    by (simp add: sendHeartbeat_def sendStatus_def sendAction_def)
qed


theorem reconnect_backoff_witness:
  "\<not> closed example_bridge \<and> 0 < length (sockets example_bridge) \<and>
   reconnectAttempt (bridge_step example_bridge (WsClose 0 1006 [])) = 1 \<and>
   reconnectTimers (bridge_step example_bridge (WsClose 0 1006 [])) = [1000] \<and>
   1 < length (sockets (connect (bridge_step example_bridge (WsClose 0 1006 [])))) \<and>
   reconnectAttempt
     (bridge_step (connect (bridge_step example_bridge (WsClose 0 1006 []))) (WsOpen 1)) = 0 \<and>
   \<not> closed (new_bridge ''U1'' 0) \<and> reconnectAttempt (new_bridge ''U1'' 0) = 0 \<and>
   reconnectTimers (failed_attempts 8 (new_bridge ''U1'' 0)) =
     [1000, 2000, 4000, 8000, 16000, 32000, 60000, 60000] \<and>
   closed (bridge_close example_bridge) \<and>
   connect (bridge_close example_bridge) = bridge_close example_bridge \<and>
   reconnectTimers (bridge_step (bridge_close example_bridge) (WsClose 0 1000 [])) = []"
proof -
  have x: "\<not> closed example_bridge \<and> 0 < length (sockets example_bridge) \<and>
           reconnectAttempt example_bridge = 0 \<and> reconnectTimers example_bridge = []"
    by (simp add: example_bridge_def connect_def new_bridge_def)
  have h: "\<not> closed (new_bridge ''U1'' 0) \<and> reconnectAttempt (new_bridge ''U1'' 0) = 0"
    by (simp add: new_bridge_def)
  have c: "closed (bridge_close example_bridge)"
    by (simp add: bridge_close_fields)
  have u: "[1..<Suc 8] = [1, 2, 3, 4, 5, 6, 7, 8]"
    by (simp add: upt_rec)
  from reconnect_backoff[of example_bridge 0 1006 "[]" 0 "[]"] x
  have 1: "reconnectAttempt (bridge_step example_bridge (WsClose 0 1006 [])) = 1 \<and>
           reconnectTimers (bridge_step example_bridge (WsClose 0 1006 [])) = [1000]"
    by simp
  have nc: "\<not> closed example_bridge" and v: "0 < length (sockets example_bridge)"
    using x by simp_all
  have l: "1 < length (sockets (connect (bridge_step example_bridge (WsClose 0 1006 []))))"
    unfolding ws_close_event[OF nc v]
    by (simp add: connect_def example_bridge_def new_bridge_def)
  from reconnect_backoff[of "connect (bridge_step example_bridge (WsClose 0 1006 []))" 1
         0 "[]" 0 "[]"] l
  have 2: "reconnectAttempt
     (bridge_step (connect (bridge_step example_bridge (WsClose 0 1006 []))) (WsOpen 1)) = 0"
    by blast
  from reconnect_backoff[of "new_bridge ''U1'' 0" 0 0 "[]" 8 "[]"] h u
  have 3: "reconnectTimers (failed_attempts 8 (new_bridge ''U1'' 0)) =
     [1000, 2000, 4000, 8000, 16000, 32000, 60000, 60000]"
    by (simp add: new_bridge_def)
  from reconnect_backoff[of "bridge_close example_bridge" 0 1000 "[]" 0 "[]"] c
  have 4: "connect (bridge_close example_bridge) = bridge_close example_bridge \<and>
           reconnectTimers (bridge_step (bridge_close example_bridge) (WsClose 0 1000 [])) =
             reconnectTimers (bridge_close example_bridge)"
    by blast
  have 5: "reconnectTimers (bridge_close example_bridge) = []"
    using x by (simp add: bridge_close_fields)
  from x h c 1 l 2 3 4 5 show ?thesis by simp
qed

theorem send_discards_when_not_open_witness:
  "\<not> ws_open example_bridge \<and>
   send example_bridge (ErrorMsg ''U1'' ''boom'') = example_bridge \<and>
   wire (requestApproval example_bridge example_request) = []"
proof -
  have h: "\<not> ws_open example_bridge"
    by (simp add: ws_open_def example_bridge_def connect_def new_bridge_def)
  have w: "wire example_bridge = []"
    by (simp add: example_bridge_def connect_def new_bridge_def)
  show ?thesis
    using h w send_discards_when_not_open[OF h, of "ErrorMsg ''U1'' ''boom''" _ _ _ _ example_request]
    by simp
qed

section \<open>The control-plane server: admission\<close>




lemma accept_split: "accept_socket srv = (length (cp_sockets srv), snd (accept_socket srv))"
  by (simp add: accept_socket_def)






section \<open>The control-plane server: sessions\<close>

lemma live_accept: "live (snd (accept_socket srv)) aid s = live srv aid s"
  by (auto simp: live_def accept_socket_def nth_append less_Suc_eq)

lemma accept_fields:
  "cp_agents (snd (accept_socket srv)) = cp_agents srv"
  "fleet (snd (accept_socket srv)) = fleet srv"
  "approvals (snd (accept_socket srv)) = approvals srv"
  "config (snd (accept_socket srv)) = config srv"
  "closeCalls (snd (accept_socket srv)) = closeCalls srv"
  "fst (accept_socket srv) = length (cp_sockets srv)"
  by (simp_all add: accept_socket_def)

lemma live_ws_close: "live (ws_close srv s0 code why) aid s = (live srv aid s \<and> s \<noteq> s0)"
  by (auto simp: live_def ws_close_def server_socket_close_def nth_list_update)

lemma ws_close_fields:
  "cp_agents (ws_close srv s0 code why) = cp_agents srv"
  "fleet (ws_close srv s0 code why) = fleet srv"
  "approvals (ws_close srv s0 code why) = approvals srv"
  "closeCalls (ws_close srv s0 code why) = closeCalls srv @ [(s0, code, why)]"
  "length (cp_sockets (ws_close srv s0 code why)) = length (cp_sockets srv)"
  by (simp_all add: ws_close_def server_socket_close_def)

lemma handleConnection_agents:
  "cp_agents (handleConnection srv s aid req nowIso) =
     AList.update aid
       \<lparr>ca_agentId = aid, ca_ws = s, connectedAt = nowIso, ca_lastHeartbeat = nowIso,
        ca_remoteAddress = (case req_remoteAddress req of None \<Rightarrow> ''unknown'' | Some a \<Rightarrow> a)\<rparr>
       (cp_agents srv)"
  by (simp add: handleConnection_def Let_def ws_close_fields split: option.splits)

lemma handleConnection_closeCalls:
  "closeCalls (handleConnection srv s aid req nowIso) =
     closeCalls srv @
       (case map_of (cp_agents srv) aid of
          None \<Rightarrow> []
        | Some existing \<Rightarrow> [(ca_ws existing, 4000, ''Replaced by new connection'')])"
  by (simp add: handleConnection_def Let_def ws_close_fields split: option.splits)

lemma live_sockets_cong: "cp_sockets srv = cp_sockets srv' \<Longrightarrow> live srv a s = live srv' a s"
  by (simp add: live_def)

lemma live_bind:
  assumes "live (srv\<lparr>cp_sockets := (cp_sockets srv)[s := (cp_sockets srv ! s)\<lparr>boundAgent := Some aid\<rparr>]\<rparr>) a s'"
  shows "(s' = s \<and> a = aid) \<or> (s' \<noteq> s \<and> live srv a s')"
proof (cases "s' = s")
  case True
  then show ?thesis using assms by (auto simp: live_def)
next
  case False
  then show ?thesis using assms by (auto simp: live_def)
qed

lemma handleConnection_sockets:
  "cp_sockets (handleConnection srv s aid req nowIso) =
     (let srv1 = (case map_of (cp_agents srv) aid of
                    None \<Rightarrow> srv
                  | Some existing \<Rightarrow> ws_close srv (ca_ws existing) 4000 ''Replaced by new connection'')
      in (cp_sockets srv1)[s := (cp_sockets srv1 ! s)\<lparr>boundAgent := Some aid\<rparr>])"
  by (simp add: handleConnection_def Let_def)

lemma live_handleConnection:
  assumes "live (handleConnection srv s aid req nowIso) a s'"
  shows "(s' = s \<and> a = aid) \<or>
     (s' \<noteq> s \<and> live srv a s' \<and> map_option ca_ws (map_of (cp_agents srv) aid) \<noteq> Some s')"
proof -
  define srv1 where "srv1 = (case map_of (cp_agents srv) aid of
                    None \<Rightarrow> srv
                  | Some existing \<Rightarrow> ws_close srv (ca_ws existing) 4000 ''Replaced by new connection'')"
  have "cp_sockets (handleConnection srv s aid req nowIso) =
          cp_sockets (srv1\<lparr>cp_sockets := (cp_sockets srv1)[s := (cp_sockets srv1 ! s)\<lparr>boundAgent := Some aid\<rparr>]\<rparr>)"
    by (simp add: handleConnection_sockets srv1_def Let_def)
  from live_sockets_cong[OF this, of a s'] assms
  have "live (srv1\<lparr>cp_sockets := (cp_sockets srv1)[s := (cp_sockets srv1 ! s)\<lparr>boundAgent := Some aid\<rparr>]\<rparr>) a s'"
    by simp
  from live_bind[OF this] have c: "(s' = s \<and> a = aid) \<or> (s' \<noteq> s \<and> live srv1 a s')" .
  have "live srv1 a s' \<Longrightarrow> live srv a s' \<and> map_option ca_ws (map_of (cp_agents srv) aid) \<noteq> Some s'"
    by (auto simp: srv1_def live_ws_close split: option.splits)
  with c show ?thesis by blast
qed

lemma one_session_handleConnection:
  assumes "one_session srv"
  shows "one_session (handleConnection srv s aid req nowIso)"
  unfolding one_session_def
proof (intro allI impI)
  fix a s'
  assume l: "live (handleConnection srv s aid req nowIso) a s'"
  from live_handleConnection[OF l]
  show "map_option ca_ws (map_of (cp_agents (handleConnection srv s aid req nowIso)) a) = Some s'"
  proof
    assume "s' = s \<and> a = aid"
    then show ?thesis by (simp add: handleConnection_agents update_conv')
  next
    assume r: "s' \<noteq> s \<and> live srv a s' \<and> map_option ca_ws (map_of (cp_agents srv) aid) \<noteq> Some s'"
    then have old: "map_option ca_ws (map_of (cp_agents srv) a) = Some s'"
      using assms by (simp add: one_session_def)
    with r have "a \<noteq> aid" by auto
    then show ?thesis using old by (simp add: handleConnection_agents update_conv')
  qed
qed

lemma one_session_accept: "one_session srv \<Longrightarrow> one_session (snd (accept_socket srv))"
  by (simp add: one_session_def live_accept accept_fields)

lemma one_session_ws_close: "one_session srv \<Longrightarrow> one_session (ws_close srv s code why)"
  by (simp add: one_session_def live_ws_close ws_close_fields)

lemma one_session_attach:
  assumes "one_session srv"
  shows "one_session (attach_upgrade srv req nowIso)"
proof (cases "attach_admission (config srv) req")
  case (Admitted aid)
  have "attach_upgrade srv req nowIso =
          handleConnection (snd (accept_socket srv)) (fst (accept_socket srv)) aid req nowIso"
    using Admitted by (simp add: attach_upgrade_def split: prod.splits)
  then show ?thesis
    using assms by (simp add: one_session_handleConnection one_session_accept)
next
  case (HttpReject code)
  then show ?thesis using assms by (simp add: attach_upgrade_def one_session_def live_def)
qed (use assms in \<open>simp_all add: attach_upgrade_def\<close>)

lemma one_session_standalone:
  assumes "one_session srv"
  shows "one_session (standalone_connection srv req nowIso)"
proof -
  have a: "one_session (snd (accept_socket srv))" using assms by (rule one_session_accept)
  show ?thesis
    by (cases "standalone_admission (config (snd (accept_socket srv))) req")
       (simp_all add: standalone_connection_def split: prod.splits,
        use a in \<open>auto simp: one_session_handleConnection one_session_ws_close\<close>)
qed

lemma hb_update_ws:
  "map_of al aid = Some conn \<Longrightarrow>
   map_option ca_ws (map_of (AList.update aid (conn\<lparr>ca_lastHeartbeat := t\<rparr>) al) a) =
   map_option ca_ws (map_of al a)"
  by (simp add: update_conv')

lemma handleAgentMessage_frame:
  "cp_sockets (handleAgentMessage coerce srv aid msg nowIso) = cp_sockets srv \<and>
   (\<forall>a. map_option ca_ws (map_of (cp_agents (handleAgentMessage coerce srv aid msg nowIso)) a) =
        map_option ca_ws (map_of (cp_agents srv) a)) \<and>
   map fst (cp_agents (handleAgentMessage coerce srv aid msg nowIso)) = map fst (cp_agents srv)"
proof (cases msg)
  case (Heartbeat a ts up)
  then show ?thesis
    by (auto simp: Let_def hb_update_ws update_keys map_of_eq_None_iff split: option.splits)
qed simp_all

lemma one_session_message:
  assumes "one_session srv"
  shows "one_session (server_on_message coerce srv s parsed nowIso)"
proof -
  have "one_session (handleAgentMessage coerce srv aid msg nowIso)" for aid msg
    using assms handleAgentMessage_frame[of coerce srv aid msg nowIso]
    by (simp add: one_session_def live_def)
  then show ?thesis
    using assms by (simp add: server_on_message_def split: option.splits)
qed

lemma one_session_on_close:
  assumes "one_session srv"
  shows "one_session (server_on_close srv s)"
proof (cases "s < length (cp_sockets srv)")
  case False
  then show ?thesis using assms by (simp add: server_on_close_def)
next
  case True
  have l: "live (server_on_close srv s) a s' \<Longrightarrow> live srv a s' \<and> s' \<noteq> s" for a s'
    using True
    by (cases "s' = s")
       (auto simp: server_on_close_def Let_def live_def split: option.splits if_splits)
  show ?thesis
    unfolding one_session_def
  proof (intro allI impI)
    fix a s'
    assume "live (server_on_close srv s) a s'"
    then have ls: "live srv a s'" and ne: "s' \<noteq> s" using l by auto
    from ls assms have m: "map_option ca_ws (map_of (cp_agents srv) a) = Some s'"
      by (simp add: one_session_def)
    show "map_option ca_ws (map_of (cp_agents (server_on_close srv s)) a) = Some s'"
      using True m ne
      by (auto simp: server_on_close_def Let_def delete_conv' split: option.splits)
  qed
qed

lemma live_close_all:
  "live (foldl (\<lambda>acc conn. ws_close acc (ca_ws conn) code why) srv cs) a s =
     (live srv a s \<and> s \<notin> ca_ws ` set cs)"
  by (induction cs arbitrary: srv) (auto simp: live_ws_close)

lemma one_session_server_close:
  assumes "one_session srv"
  shows "one_session (server_close srv)"
  unfolding one_session_def
proof (intro allI impI)
  fix a s
  assume "live (server_close srv) a s"
  then have "live (foldl (\<lambda>acc conn. ws_close acc (ca_ws conn) 1001 ''Control plane shutting down'')
                   srv (map snd (cp_agents srv))) a s"
    by (simp add: server_close_def Let_def live_def)
  then have l: "live srv a s" and n: "s \<notin> ca_ws ` set (map snd (cp_agents srv))"
    by (simp_all add: live_close_all)
  from l assms obtain c where "map_of (cp_agents srv) a = Some c" "ca_ws c = s"
    by (auto simp: one_session_def)
  then have "s \<in> ca_ws ` set (map snd (cp_agents srv))"
    by (force dest!: map_of_SomeD)
  with n show "map_option ca_ws (map_of (cp_agents (server_close srv)) a) = Some s" by simp
qed

lemma one_session_step: "one_session srv \<Longrightarrow> one_session (server_step coerce srv ev)"
proof (cases ev)
  case (CallSendToAgent aid msg)
  assume "one_session srv"
  then show ?thesis using CallSendToAgent
    by (auto simp: sendToAgent_def one_session_def live_def split: option.splits)
qed (simp_all add: one_session_attach one_session_standalone one_session_message
       one_session_on_close one_session_server_close)

lemma one_session_new: "one_session (new_server cfg fm am)"
  by (simp add: one_session_def live_def new_server_def)

lemma one_session_run: "one_session srv \<Longrightarrow> one_session (server_run coerce srv evs)"
  unfolding server_run_def
  by (induction evs arbitrary: srv) (simp_all add: one_session_step)


lemma keys_handleConnection:
  "distinct (map fst (cp_agents srv)) \<Longrightarrow>
   distinct (map fst (cp_agents (handleConnection srv s aid req nowIso)))"
  by (simp add: handleConnection_agents distinct_update)

lemma keys_step:
  assumes "distinct (map fst (cp_agents srv))"
  shows "distinct (map fst (cp_agents (server_step coerce srv ev)))"
proof (cases ev)
  case (Upgrade req nowIso)
  then show ?thesis using assms
    by (auto simp: attach_upgrade_def keys_handleConnection accept_fields
          split: admission.splits prod.splits dest!: arg_cong[where f=snd])
next
  case (Connection req nowIso)
  then show ?thesis using assms
    by (auto simp: standalone_connection_def keys_handleConnection accept_fields ws_close_fields
          split: admission.splits prod.splits dest!: arg_cong[where f=snd])
next
  case (SocketMessage s parsed nowIso)
  then show ?thesis using assms handleAgentMessage_frame
    by (auto simp: server_on_message_def split: option.splits)
next
  case (SocketClose s)
  then show ?thesis using assms
    by (auto simp: server_on_close_def Let_def distinct_delete split: option.splits)
next
  case (CallSendToAgent aid msg)
  then show ?thesis using assms by (auto simp: sendToAgent_def split: option.splits)
next
  case CallServerClose
  then show ?thesis by (simp add: server_close_def Let_def)
qed (use assms in simp)

lemma keys_run:
  "distinct (map fst (cp_agents srv)) \<Longrightarrow>
   distinct (map fst (cp_agents (server_run coerce srv evs)))"
  unfolding server_run_def
  by (induction evs arbitrary: srv) (simp_all add: keys_step)

lemma on_close_stale:
  assumes "s < length (cp_sockets srv)" "boundAgent (cp_sockets srv ! s) = Some aid"
      "map_option ca_ws (map_of (cp_agents srv) aid) \<noteq> Some s"
  shows "cp_agents (server_on_close srv s) = cp_agents srv \<and> fleet (server_on_close srv s) = fleet srv"
  using assms by (auto simp: server_on_close_def Let_def)

lemma on_close_current:
  assumes "s < length (cp_sockets srv)" "boundAgent (cp_sockets srv ! s) = Some aid"
      "map_option ca_ws (map_of (cp_agents srv) aid) = Some s"
  shows "map_of (cp_agents (server_on_close srv s)) aid = None \<and>
         cp_agents (server_on_close srv s) = AList.delete aid (cp_agents srv) \<and>
         fleet (server_on_close srv s) = updateAgentConnection (fleet srv) aid Offline None"
  using assms by (simp add: server_on_close_def Let_def delete_conv')

text \<open>
  Claim C2. When \<open>handleConnection\<close> runs for an agent id that has a session, the old socket
  gets \<open>close(4000, "Replaced by new connection")\<close>, is no longer a live session, and the
  map holds the new socket. The close handler of a socket that is not the indexed one
  leaves the map and the fleet alone; the one of the indexed socket removes the entry and
  marks the fleet record offline. In every state the server reaches, the map has one
  entry per agent id and an agent's live sessions are all the one socket the map holds.
\<close>

theorem one_live_session_per_agent:
  "(map_of (cp_agents srv) aid = Some old \<longrightarrow>
      closeCalls (handleConnection srv s aid req nowIso) =
        closeCalls srv @ [(ca_ws old, 4000, ''Replaced by new connection'')] \<and>
      \<not> live (handleConnection srv s aid req nowIso) aid (ca_ws old) \<and>
      map_option ca_ws (map_of (cp_agents (handleConnection srv s aid req nowIso)) aid) = Some s) \<and>
   (s < length (cp_sockets srv) \<and> boundAgent (cp_sockets srv ! s) = Some aid \<and>
    map_option ca_ws (map_of (cp_agents srv) aid) \<noteq> Some s \<longrightarrow>
      cp_agents (server_on_close srv s) = cp_agents srv \<and>
      fleet (server_on_close srv s) = fleet srv) \<and>
   (s < length (cp_sockets srv) \<and> boundAgent (cp_sockets srv ! s) = Some aid \<and>
    map_option ca_ws (map_of (cp_agents srv) aid) = Some s \<longrightarrow>
      map_of (cp_agents (server_on_close srv s)) aid = None \<and>
      fleet (server_on_close srv s) = updateAgentConnection (fleet srv) aid Offline None) \<and>
   distinct (map fst (cp_agents (server_run coerce (new_server cfg fm am) evs))) \<and>
   (\<forall>a s1 s2. live (server_run coerce (new_server cfg fm am) evs) a s1 \<and>
              live (server_run coerce (new_server cfg fm am) evs) a s2 \<longrightarrow>
              s1 = s2 \<and>
              map_option ca_ws (map_of (cp_agents (server_run coerce (new_server cfg fm am) evs)) a)
                = Some s1)"
proof -
  have 1: "closeCalls (handleConnection srv s aid req nowIso) =
        closeCalls srv @ [(ca_ws old, 4000, ''Replaced by new connection'')] \<and>
      \<not> live (handleConnection srv s aid req nowIso) aid (ca_ws old) \<and>
      map_option ca_ws (map_of (cp_agents (handleConnection srv s aid req nowIso)) aid) = Some s"
    if o: "map_of (cp_agents srv) aid = Some old"
  proof -
    have a: "closeCalls (handleConnection srv s aid req nowIso) =
        closeCalls srv @ [(ca_ws old, 4000, ''Replaced by new connection'')]"
      using o by (simp add: handleConnection_closeCalls)
    have b: "map_option ca_ws (map_of (cp_agents (handleConnection srv s aid req nowIso)) aid) = Some s"
      by (simp add: handleConnection_agents update_conv')
    have c: "\<not> live (handleConnection srv s aid req nowIso) aid (ca_ws old)"
    proof
      assume "live (handleConnection srv s aid req nowIso) aid (ca_ws old)"
      from live_handleConnection[OF this] o b
      have "ca_ws old = s" by auto
      moreover have "readyState (cp_sockets (handleConnection srv s aid req nowIso) ! s) \<noteq> OPEN"
        if "s = ca_ws old" "s < length (cp_sockets srv)"
        using that o
        by (simp add: handleConnection_sockets Let_def ws_close_def server_socket_close_def)
      ultimately show False
        using \<open>live (handleConnection srv s aid req nowIso) aid (ca_ws old)\<close>
        by (auto simp: live_def handleConnection_sockets Let_def o ws_close_fields)
    qed
    from a b c show ?thesis by blast
  qed
  let ?r = "server_run coerce (new_server cfg fm am) evs"
  have inv: "one_session ?r"
    by (rule one_session_run[OF one_session_new])
  have 4: "distinct (map fst (cp_agents ?r))"
    by (rule keys_run) (simp add: new_server_def)
  have 5: "\<forall>a s1 s2. live ?r a s1 \<and> live ?r a s2 \<longrightarrow>
              s1 = s2 \<and> map_option ca_ws (map_of (cp_agents ?r) a) = Some s1"
  proof (intro allI impI)
    fix a s1 s2
    assume l: "live ?r a s1 \<and> live ?r a s2"
    from l inv have "map_option ca_ws (map_of (cp_agents ?r) a) = Some s1"
      "map_option ca_ws (map_of (cp_agents ?r) a) = Some s2"
      by (simp_all add: one_session_def)
    then show "s1 = s2 \<and> map_option ca_ws (map_of (cp_agents ?r) a) = Some s1" by simp
  qed
  have c1: "map_of (cp_agents srv) aid = Some old \<longrightarrow>
      closeCalls (handleConnection srv s aid req nowIso) =
        closeCalls srv @ [(ca_ws old, 4000, ''Replaced by new connection'')] \<and>
      \<not> live (handleConnection srv s aid req nowIso) aid (ca_ws old) \<and>
      map_option ca_ws (map_of (cp_agents (handleConnection srv s aid req nowIso)) aid) = Some s"
    using 1 by blast
  have c2: "s < length (cp_sockets srv) \<and> boundAgent (cp_sockets srv ! s) = Some aid \<and>
    map_option ca_ws (map_of (cp_agents srv) aid) \<noteq> Some s \<longrightarrow>
      cp_agents (server_on_close srv s) = cp_agents srv \<and>
      fleet (server_on_close srv s) = fleet srv"
    by (auto simp: server_on_close_def Let_def)
  have c3: "s < length (cp_sockets srv) \<and> boundAgent (cp_sockets srv ! s) = Some aid \<and>
    map_option ca_ws (map_of (cp_agents srv) aid) = Some s \<longrightarrow>
      map_of (cp_agents (server_on_close srv s)) aid = None \<and>
      fleet (server_on_close srv s) = updateAgentConnection (fleet srv) aid Offline None"
    by (simp add: server_on_close_def Let_def delete_conv')
  show ?thesis
    by (intro conjI; fact c1 c2 c3 4 5)
qed


lemma connected_server_eval:
  "cp_agents connected_server =
     [(''U1'', \<lparr>ca_agentId = ''U1'', ca_ws = 0, connectedAt = ''2026-01-01T00:00:05.000Z'',
               ca_lastHeartbeat = ''2026-01-01T00:00:05.000Z'', ca_remoteAddress = ''10.0.0.7''\<rparr>)]"
  "cp_sockets connected_server = [\<lparr>readyState = OPEN, boundAgent = Some ''U1''\<rparr>]"
  "closeCalls connected_server = []"
  "config connected_server = example_config"
  by (simp_all add: connected_server_def attach_upgrade_def attach_admission_def attach_token_def
        startsWith_def example_server_def new_server_def example_config_def
        request_with_query_def accept_socket_def handleConnection_def Let_def)

lemma reconnected_server_unfold:
  "reconnected_server =
     handleConnection (snd (accept_socket connected_server)) 1 ''U1'' request_with_header
       ''2026-01-01T00:00:09.000Z''"
  by (simp add: reconnected_server_def attach_upgrade_def attach_admission_def attach_token_def
        startsWith_def connected_server_eval example_config_def request_with_header_def
        accept_socket_def)

lemma reconnected_server_eval:
  "cp_sockets reconnected_server =
     [\<lparr>readyState = CLOSING, boundAgent = Some ''U1''\<rparr>,
      \<lparr>readyState = OPEN, boundAgent = Some ''U1''\<rparr>]"
  "map_option ca_ws (map_of (cp_agents reconnected_server) ''U1'') = Some 1"
  by (simp_all add: reconnected_server_unfold handleConnection_def Let_def accept_socket_def
        connected_server_eval ws_close_def server_socket_close_def)

theorem one_live_session_per_agent_witness:
  "map_of (cp_agents (snd (accept_socket connected_server))) ''U1'' \<noteq> None \<and>
   closeCalls reconnected_server = [(0, 4000, ''Replaced by new connection'')] \<and>
   \<not> live reconnected_server ''U1'' 0 \<and>
   live reconnected_server ''U1'' 1 \<and>
   boundAgent (cp_sockets reconnected_server ! 0) = Some ''U1'' \<and>
   cp_agents (server_on_close reconnected_server 0) = cp_agents reconnected_server \<and>
   map_of (cp_agents (server_on_close reconnected_server 1)) ''U1'' = None"
proof -
  let ?old = "\<lparr>ca_agentId = ''U1'', ca_ws = 0, connectedAt = ''2026-01-01T00:00:05.000Z'',
               ca_lastHeartbeat = ''2026-01-01T00:00:05.000Z'', ca_remoteAddress = ''10.0.0.7''\<rparr>"
  have o: "map_of (cp_agents (snd (accept_socket connected_server))) ''U1'' = Some ?old"
    by (simp add: accept_socket_def connected_server_eval)
  have c: "closeCalls (snd (accept_socket connected_server)) = []"
    by (simp add: accept_socket_def connected_server_eval)
  from one_live_session_per_agent[of "snd (accept_socket connected_server)" "''U1''" ?old 1
         request_with_header "''2026-01-01T00:00:09.000Z''"] o c
  have a: "closeCalls reconnected_server = [(0, 4000, ''Replaced by new connection'')] \<and>
           \<not> live reconnected_server ''U1'' 0"
    by (simp add: reconnected_server_unfold)
  have l: "live reconnected_server ''U1'' 1"
    by (simp add: live_def reconnected_server_eval)
  have b0: "0 < length (cp_sockets reconnected_server) \<and>
            boundAgent (cp_sockets reconnected_server ! 0) = Some ''U1'' \<and>
            map_option ca_ws (map_of (cp_agents reconnected_server) ''U1'') \<noteq> Some 0"
    by (simp add: reconnected_server_eval)
  have b1: "1 < length (cp_sockets reconnected_server) \<and>
            boundAgent (cp_sockets reconnected_server ! 1) = Some ''U1'' \<and>
            map_option ca_ws (map_of (cp_agents reconnected_server) ''U1'') = Some 1"
    by (simp add: reconnected_server_eval)
  from one_live_session_per_agent[of reconnected_server "''U1''" ?old 0] b0
  have s0: "cp_agents (server_on_close reconnected_server 0) = cp_agents reconnected_server"
    by blast
  from one_live_session_per_agent[of reconnected_server "''U1''" ?old 1] b1
  have s1: "map_of (cp_agents (server_on_close reconnected_server 1)) ''U1'' = None"
    by blast
  from o a l b0 s0 s1 show ?thesis by simp
qed

section \<open>The approval manager\<close>

lemma take_Cons_take: "take n (x # take n xs) = take n (x # xs)"
  by (cases n) simp_all

lemma addToHistory_fields:
  "history (addToHistory m r) = take maxHistory (r # history m)"
  "heap (addToHistory m r) = heap m"
  "queue (addToHistory m r) = queue m"
  "callbackCalls (addToHistory m r) = callbackCalls m"
  "has_onResolved (addToHistory m r) = has_onResolved m"
  "has_onNewApproval (addToHistory m r) = has_onNewApproval m"
  by (simp_all add: addToHistory_def Let_def)

lemma call_onResolved_fields:
  "history (call_onResolved m a) = history m"
  "heap (call_onResolved m a) = heap m"
  "queue (call_onResolved m a) = queue m"
  "callbackCalls (call_onResolved m a) =
     callbackCalls m @ (if has_onResolved m then [OnResolved a] else [])"
  "has_onResolved (call_onResolved m a) = has_onResolved m"
  "has_onNewApproval (call_onResolved m a) = has_onNewApproval m"
  by (simp_all add: call_onResolved_def)

lemma expireEntry_fields:
  "heap (expireEntry p now m e) =
     (if stale_at p now m (snd e)
      then (heap m)[snd e := (heap m ! snd e)\<lparr>pa_state := Expired\<rparr>] else heap m)"
  "queue (expireEntry p now m e) =
     (if stale_at p now m (snd e) then AList.delete (fst e) (queue m) else queue m)"
  "history (expireEntry p now m e) =
     (if stale_at p now m (snd e) then take maxHistory (snd e # history m) else history m)"
  by (simp_all add: expireEntry_def stale_at_def Let_def addToHistory_fields call_onResolved_fields)

lemma expireEntry_length: "length (heap (expireEntry p now m e)) = length (heap m)"
  by (simp add: expireEntry_fields)

lemma expireEntry_nth:
  "r < length (heap m) \<Longrightarrow>
   heap (expireEntry p now m e) ! r =
     (if r = snd e \<and> is_stale p now (heap m ! r)
      then (heap m ! r)\<lparr>pa_state := Expired\<rparr> else heap m ! r)"
  by (auto simp: expireEntry_fields stale_at_def)

lemma not_stale_expired: "\<not> is_stale p now (a\<lparr>pa_state := Expired\<rparr>)"
  by (simp add: is_stale_def)

lemma expire_fold_length:
  "length (heap (foldl (expireEntry p now) m es)) = length (heap m)"
  by (induction es arbitrary: m) (simp_all add: expireEntry_length)

lemma expire_fold_nth:
  "r < length (heap m) \<Longrightarrow>
   heap (foldl (expireEntry p now) m es) ! r =
     (if r \<in> snd ` set es \<and> is_stale p now (heap m ! r)
      then (heap m ! r)\<lparr>pa_state := Expired\<rparr> else heap m ! r)"
proof (induction es arbitrary: m)
  case Nil
  then show ?case by simp
next
  case (Cons e es)
  have len: "r < length (heap (expireEntry p now m e))"
    using Cons.prems by (simp add: expireEntry_length)
  show ?case
    using Cons.IH[OF len] Cons.prems
    by (auto simp: expireEntry_nth not_stale_expired)
qed

lemma stale_at_later:
  "r \<noteq> snd e \<Longrightarrow> stale_at p now (expireEntry p now m e) r = stale_at p now m r"
  by (auto simp: stale_at_def expireEntry_fields)

lemma expire_fold_queue_history:
  "distinct (map snd es) \<Longrightarrow> length (history m) \<le> maxHistory \<Longrightarrow>
   queue (foldl (expireEntry p now) m es) =
     filter (\<lambda>q. fst q \<notin> fst ` {e \<in> set es. stale_at p now m (snd e)}) (queue m) \<and>
   history (foldl (expireEntry p now) m es) =
     take maxHistory (rev (filter (stale_at p now m) (map snd es)) @ history m)"
proof (induction es arbitrary: m)
  case Nil
  then show ?case by simp
next
  case (Cons e es)
  let ?m1 = "expireEntry p now m e"
  have d: "distinct (map snd es)"
    using Cons.prems by simp
  have ne: "\<forall>e' \<in> set es. snd e' \<noteq> snd e"
  proof
    fix e' assume "e' \<in> set es"
    then have "snd e' \<in> set (map snd es)" by simp
    moreover have "snd e \<notin> set (map snd es)" using Cons.prems(1) by simp
    ultimately show "snd e' \<noteq> snd e" by metis
  qed
  have eq: "\<forall>e' \<in> set es. stale_at p now ?m1 (snd e') = stale_at p now m (snd e')"
    using ne by (simp add: stale_at_later)
  have s1: "{e' \<in> set es. stale_at p now ?m1 (snd e')} = {e' \<in> set es. stale_at p now m (snd e')}"
    using eq by blast
  have s2: "filter (stale_at p now ?m1) (map snd es) = filter (stale_at p now m) (map snd es)"
    by (rule filter_cong) (use eq in auto)
  have q: "queue (foldl (expireEntry p now) ?m1 es) =
     filter (\<lambda>q. fst q \<notin> fst ` {e \<in> set es. stale_at p now m (snd e)}) (queue ?m1)"
    and h: "history (foldl (expireEntry p now) ?m1 es) =
     take maxHistory (rev (filter (stale_at p now m) (map snd es)) @ history ?m1)"
    using Cons.IH[OF d, of ?m1] Cons.prems(2) by (simp_all add: s1 s2 expireEntry_fields)
  show ?case
  proof (cases "stale_at p now m (snd e)")
    case True
    have a: "{e' \<in> set (e # es). stale_at p now m (snd e')} =
               insert e {e' \<in> set es. stale_at p now m (snd e')}"
      using True by auto
    have "queue (foldl (expireEntry p now) m (e # es)) =
            filter (\<lambda>q. fst q \<notin> fst ` {e' \<in> set (e # es). stale_at p now m (snd e')}) (queue m)"
      unfolding a using True q
      by (auto simp: expireEntry_fields AList.delete_eq simp del: set_simps intro: filter_cong)
    moreover have "history (foldl (expireEntry p now) m (e # es)) =
            take maxHistory (rev (filter (stale_at p now m) (map snd (e # es))) @ history m)"
      using True h
      by (simp add: expireEntry_fields take_append min_def) 
    ultimately show ?thesis by simp
  next
    case False
    have a: "{e' \<in> set (e # es). stale_at p now m (snd e')} =
               {e' \<in> set es. stale_at p now m (snd e')}"
      using False by auto
    show ?thesis unfolding a using False q h
      by (simp add: expireEntry_fields del: set_simps)
  qed
qed


lemma expireStale_nth:
  "r < length (heap m) \<Longrightarrow>
   heap (expireStale p now m) ! r =
     (if r \<in> snd ` set (queue m) \<and> is_stale p now (heap m ! r)
      then (heap m ! r)\<lparr>pa_state := Expired\<rparr> else heap m ! r)"
  by (simp add: expireStale_def expire_fold_nth)

lemma expireStale_length: "length (heap (expireStale p now m)) = length (heap m)"
  by (simp add: expireStale_def expire_fold_length)

lemma stale_at_wf:
  "am_wf m \<Longrightarrow> e \<in> set (queue m) \<Longrightarrow> stale_at p now m (snd e) = is_stale p now (heap m ! snd e)"
  by (auto simp: am_wf_def stale_at_def list_all_iff)

lemma expireStale_history:
  assumes "am_wf m"
  shows "history (expireStale p now m) = take maxHistory (rev (staleRefs p now m) @ history m)"
proof -
  have f: "filter (stale_at p now m) (map snd (queue m)) = staleRefs p now m"
    unfolding staleRefs_def
    by (rule filter_cong) (use assms in \<open>auto simp: stale_at_def am_wf_def list_all_iff\<close>)
  show ?thesis
    using expire_fold_queue_history[of "queue m" m p now] assms f
    by (simp add: expireStale_def am_wf_def)
qed

lemma expireStale_queue:
  assumes "am_wf m"
  shows "queue (expireStale p now m) =
           filter (\<lambda>q. \<not> is_stale p now (heap m ! snd q)) (queue m)"
proof -
  have k: "distinct (map fst (queue m))" using assms by (simp add: am_wf_def)
  have "queue (expireStale p now m) =
     filter (\<lambda>q. fst q \<notin> fst ` {e \<in> set (queue m). stale_at p now m (snd e)}) (queue m)"
    using expire_fold_queue_history[of "queue m" m p now] assms
    by (simp add: expireStale_def am_wf_def)
  also have "\<dots> = filter (\<lambda>q. \<not> is_stale p now (heap m ! snd q)) (queue m)"
  proof (rule filter_cong[OF refl])
    fix q assume q: "q \<in> set (queue m)"
    have "fst q \<in> fst ` {e \<in> set (queue m). stale_at p now m (snd e)} \<longleftrightarrow>
            stale_at p now m (snd q)"
    proof
      assume "fst q \<in> fst ` {e \<in> set (queue m). stale_at p now m (snd e)}"
      then obtain e where e: "e \<in> set (queue m)" "stale_at p now m (snd e)" "fst e = fst q"
        by auto
      have "e = q" using k e(1) q e(3)
        by (metis eq_key_imp_eq_value prod.collapse)
      then show "stale_at p now m (snd q)" using e(2) by simp
    next
      assume "stale_at p now m (snd q)"
      then show "fst q \<in> fst ` {e \<in> set (queue m). stale_at p now m (snd e)}"
        using q by blast
    qed
    then show "(fst q \<notin> fst ` {e \<in> set (queue m). stale_at p now m (snd e)}) =
                 (\<not> is_stale p now (heap m ! snd q))"
      using stale_at_wf[OF assms q] by simp
  qed
  finally show ?thesis .
qed

lemma distinct_snd_update:
  "distinct (map snd al) \<Longrightarrow> v \<notin> snd ` set al \<Longrightarrow> distinct (map snd (AList.update k v al))"
proof (induction al)
  case Nil
  then show ?case by simp
next
  case (Cons a al)
  have sub: "snd ` set (AList.update k v al) \<subseteq> insert v (snd ` set al)"
    by (induction al) auto
  show ?case using Cons sub by (auto simp: image_iff) 
qed

lemma set_update_subset: "set (AList.update k v al) \<subseteq> insert (k, v) (set al)"
  by (induction al) auto

lemma am_wf_addRequest:
  assumes "am_wf m"
  shows "am_wf (snd (addRequest m aid request nowIso))"
proof -
  have fresh: "length (heap m) \<notin> snd ` set (queue m)"
    using assms by (auto simp: am_wf_def list_all_iff)
  have v: "\<forall>e \<in> set (AList.update (ar_id request) (length (heap m)) (queue m)).
             snd e < Suc (length (heap m))"
    using set_update_subset[of "ar_id request" "length (heap m)" "queue m"] assms
    by (auto simp: am_wf_def list_all_iff less_Suc_eq)
  show ?thesis
    using assms fresh v
    by (simp add: addRequest_def Let_def am_wf_def distinct_update distinct_snd_update
          list_all_iff)
qed

lemma distinct_snd_filter: "distinct (map snd al) \<Longrightarrow> distinct (map snd (filter P al))"
  by (simp add: distinct_map_filter)

lemma am_wf_resolve:
  assumes "am_wf m"
  shows "am_wf (snd (resolve m rid approved who why nowIso))"
  using assms
  by (auto simp: resolve_def Let_def am_wf_def addToHistory_fields call_onResolved_fields
        distinct_delete AList.delete_eq distinct_map_filter list_all_iff
        split: option.splits)

lemma am_wf_expireStale:
  assumes "am_wf m"
  shows "am_wf (expireStale p now m)"
  using assms
  by (auto simp: am_wf_def expireStale_queue[OF assms] expireStale_history[OF assms]
        expireStale_length distinct_map_filter list_all_iff)

lemma am_wf_step: "am_wf m \<Longrightarrow> am_wf (approval_step p m op)"
  by (cases op) (simp_all add: am_wf_addRequest am_wf_resolve am_wf_expireStale)

lemma am_wf_new: "am_wf (new_approval_manager a b)"
  by (simp add: am_wf_def new_approval_manager_def maxHistory_def)

lemma am_wf_run: "am_wf m \<Longrightarrow> am_wf (foldl (approval_step p) m ops)"
  by (induction ops arbitrary: m) (simp_all add: am_wf_step)


lemma queue_ref_valid: "am_wf m \<Longrightarrow> map_of (queue m) rid = Some r \<Longrightarrow> r < length (heap m)"
  by (auto simp: am_wf_def list_all_iff dest!: map_of_SomeD)

lemma resolve_absent: "map_of (queue m) rid = None \<Longrightarrow> resolve m rid approved who why nowIso = (None, m)"
  by (simp add: resolve_def)

lemma resolve_not_pending:
  "map_of (queue m) rid = Some r \<Longrightarrow> pa_state (heap m ! r) \<noteq> Pending \<Longrightarrow>
   resolve m rid approved who why nowIso = (None, m)"
  by (simp add: resolve_def)

lemma resolve_pending:
  assumes "map_of (queue m) rid = Some r" "r < length (heap m)" "pa_state (heap m ! r) = Pending"
  shows "\<exists>m'. resolve m rid approved who why nowIso = (Some r, m') \<and>
          heap m' = (heap m)[r := (heap m ! r)
             \<lparr>pa_state := (if approved then Approved else Denied),
              respondedBy := Some who, reason := why, respondedAt := Some nowIso\<rparr>] \<and>
          queue m' = AList.delete rid (queue m) \<and>
          history m' = take maxHistory (r # history m) \<and>
          callbackCalls m' =
            callbackCalls m @ (if has_onResolved m then [OnResolved (heap m' ! r)] else [])"
  using assms
  by (simp add: resolve_def Let_def addToHistory_fields call_onResolved_fields)

text \<open>
  Claim C3. In a well-formed manager, \<open>resolve\<close> returns \<open>null\<close> and changes nothing when the
  id is not queued or its entry is not pending. Otherwise it returns the entry, whose
  state is now \<open>approved\<close> or \<open>denied\<close> as \<open>approved\<close> says, with responder, reason and
  response time stamped; the id has left the queue, the entry is the newest of the
  history (kept to 1000), \<open>onResolved\<close>, when set, has been called with it, and resolving
  the same id again returns \<open>null\<close> and changes nothing.
\<close>

theorem resolve_transitions:
  assumes "am_wf m"
  shows "(map_of (queue m) rid = None \<or>
          (\<exists>r. map_of (queue m) rid = Some r \<and> pa_state (heap m ! r) \<noteq> Pending) \<longrightarrow>
            resolve m rid approved who why nowIso = (None, m)) \<and>
         (\<forall>r. map_of (queue m) rid = Some r \<and> pa_state (heap m ! r) = Pending \<longrightarrow>
            (\<exists>m'. resolve m rid approved who why nowIso = (Some r, m') \<and>
               heap m' = (heap m)[r := (heap m ! r)
                 \<lparr>pa_state := (if approved then Approved else Denied),
                  respondedBy := Some who, reason := why, respondedAt := Some nowIso\<rparr>] \<and>
               queue m' = AList.delete rid (queue m) \<and>
               map_of (queue m') rid = None \<and>
               history m' = take maxHistory (r # history m) \<and>
               callbackCalls m' =
                 callbackCalls m @ (if has_onResolved m then [OnResolved (heap m' ! r)] else []) \<and>
               resolve m' rid approved2 who2 why2 nowIso2 = (None, m')))"
proof -
  have 3: "\<exists>m'. resolve m rid approved who why nowIso = (Some r, m') \<and>
               heap m' = (heap m)[r := (heap m ! r)
                 \<lparr>pa_state := (if approved then Approved else Denied),
                  respondedBy := Some who, reason := why, respondedAt := Some nowIso\<rparr>] \<and>
               queue m' = AList.delete rid (queue m) \<and>
               map_of (queue m') rid = None \<and>
               history m' = take maxHistory (r # history m) \<and>
               callbackCalls m' =
                 callbackCalls m @ (if has_onResolved m then [OnResolved (heap m' ! r)] else []) \<and>
               resolve m' rid approved2 who2 why2 nowIso2 = (None, m')"
    if q: "map_of (queue m) rid = Some r" and p: "pa_state (heap m ! r) = Pending" for r
  proof -
    have v: "r < length (heap m)" using assms q by (rule queue_ref_valid)
    from resolve_pending[OF q v p, of approved who why nowIso]
    obtain m' where m': "resolve m rid approved who why nowIso = (Some r, m')"
      "heap m' = (heap m)[r := (heap m ! r)
                 \<lparr>pa_state := (if approved then Approved else Denied),
                  respondedBy := Some who, reason := why, respondedAt := Some nowIso\<rparr>]"
      "queue m' = AList.delete rid (queue m)"
      "history m' = take maxHistory (r # history m)"
      "callbackCalls m' =
                 callbackCalls m @ (if has_onResolved m then [OnResolved (heap m' ! r)] else [])"
      by blast
    have gone: "map_of (queue m') rid = None"
      by (simp add: m'(3) delete_conv')
    from m' gone resolve_absent[OF gone] show ?thesis by blast
  qed
  show ?thesis
    using 3 by (auto simp: resolve_absent resolve_not_pending)
qed

lemma addRequest_heap:
  "heap (snd (addRequest m aid request nowIso)) = heap m @
     [\<lparr>pa_id = ar_id request, pa_agentId = aid, pa_category = ar_category request,
       pa_description = ar_description request, pa_amount = ar_amount request,
       pa_currency = ar_currency request, pa_createdAt = nowIso,
       pa_expiresAt = ar_expiresAt request, pa_state = Pending,
       respondedBy = None, reason = None, respondedAt = None\<rparr>]"
  by (simp add: addRequest_def Let_def)

lemma resolve_heap_cases:
  "heap (snd (resolve m rid approved who why nowIso)) = heap m \<or>
   (\<exists>r. r < length (heap m) \<and> pa_state (heap m ! r) = Pending \<and>
        heap (snd (resolve m rid approved who why nowIso)) =
          (heap m)[r := (heap m ! r)
             \<lparr>pa_state := (if approved then Approved else Denied),
              respondedBy := Some who, reason := why, respondedAt := Some nowIso\<rparr>])"
  by (auto simp: resolve_def Let_def addToHistory_fields call_onResolved_fields
        split: option.splits)

lemma terminal_frozen:
  assumes "r < length (heap m)" "pa_state (heap m ! r) \<noteq> Pending"
  shows "r < length (heap (approval_step p m op)) \<and> heap (approval_step p m op) ! r = heap m ! r"
proof (cases op)
  case (AddRequest aid request nowIso)
  then show ?thesis using assms by (simp add: addRequest_heap nth_append)
next
  case (Resolve rid approved who why nowIso)
  then show ?thesis
    using assms resolve_heap_cases[of m rid approved who why nowIso]
    by (auto simp: nth_list_update)
next
  case (ExpireStale now)
  then show ?thesis
    using assms by (simp add: expireStale_length expireStale_nth is_stale_def)
qed

lemma expired_only_by_scan:
  assumes "r < length (heap (approval_step p m op))"
      and "pa_state (heap (approval_step p m op) ! r) = Expired"
      and "\<not> (r < length (heap m) \<and> pa_state (heap m ! r) = Expired)"
  shows "r < length (heap m) \<and> pa_state (heap m ! r) = Pending \<and>
         (\<exists>now t. op = ExpireStale now \<and> p (pa_expiresAt (heap m ! r)) = Some t \<and> t < now \<and>
                  r \<in> snd ` set (queue m))"
proof (cases op)
  case (AddRequest aid request nowIso)
  then show ?thesis
    using assms by (auto simp: addRequest_heap nth_append less_Suc_eq split: if_splits)
next
  case (Resolve rid approved who why nowIso)
  then show ?thesis
    using assms resolve_heap_cases[of m rid approved who why nowIso]
    by (auto simp: nth_list_update split: if_splits)
next
  case (ExpireStale now)
  then have len: "r < length (heap m)" using assms(1) by (simp add: expireStale_length)
  show ?thesis
    using ExpireStale assms len
    by (auto simp: expireStale_nth is_stale_def split: if_splits option.splits)
qed

lemma expired_leaves_queue:
  assumes "am_wf m" "r < length (heap m)" "is_stale p now (heap m ! r)" "r \<in> snd ` set (queue m)"
  shows "r \<notin> snd ` set (queue (expireStale p now m)) \<and> r \<in> set (staleRefs p now m)"
  using assms by (auto simp: expireStale_queue staleRefs_def)

text \<open>
  Claim C4. No operation of the manager changes an approval object that is not pending.
  An object that is \<open>expired\<close> after an operation and was not before was pending, the
  operation was the expiry scan, and the clock of the scan was past the object's
  \<open>expiresAt\<close>; in a well-formed manager the object has then left the queue and was pushed
  on the history, which holds the newest 1000 of the entries pushed.
\<close>

theorem approval_terminal_and_expiry:
  "(r < length (heap m) \<and> pa_state (heap m ! r) \<noteq> Pending \<longrightarrow>
      r < length (heap (approval_step parseDate m op)) \<and>
      heap (approval_step parseDate m op) ! r = heap m ! r) \<and>
   (r < length (heap (approval_step parseDate m op)) \<and>
    pa_state (heap (approval_step parseDate m op) ! r) = Expired \<and>
    \<not> (r < length (heap m) \<and> pa_state (heap m ! r) = Expired) \<longrightarrow>
      r < length (heap m) \<and> pa_state (heap m ! r) = Pending \<and>
      (\<exists>now t. op = ExpireStale now \<and>
          parseDate (pa_expiresAt (heap m ! r)) = Some t \<and> t < now \<and>
          (am_wf m \<longrightarrow>
             r \<notin> snd ` set (queue (approval_step parseDate m op)) \<and>
             r \<in> set (staleRefs parseDate now m) \<and>
             history (approval_step parseDate m op) =
               take maxHistory (rev (staleRefs parseDate now m) @ history m))))"
proof -
  have 1: "r < length (heap m) \<and> pa_state (heap m ! r) \<noteq> Pending \<longrightarrow>
      r < length (heap (approval_step parseDate m op)) \<and>
      heap (approval_step parseDate m op) ! r = heap m ! r"
    using terminal_frozen[of r m parseDate op] by blast
  have 2: "r < length (heap m) \<and> pa_state (heap m ! r) = Pending \<and>
      (\<exists>now t. op = ExpireStale now \<and>
          parseDate (pa_expiresAt (heap m ! r)) = Some t \<and> t < now \<and>
          (am_wf m \<longrightarrow>
             r \<notin> snd ` set (queue (approval_step parseDate m op)) \<and>
             r \<in> set (staleRefs parseDate now m) \<and>
             history (approval_step parseDate m op) =
               take maxHistory (rev (staleRefs parseDate now m) @ history m)))"
    if a: "r < length (heap (approval_step parseDate m op))"
       "pa_state (heap (approval_step parseDate m op) ! r) = Expired"
       "\<not> (r < length (heap m) \<and> pa_state (heap m ! r) = Expired)"
  proof -
    from expired_only_by_scan[OF a]
    obtain now t where f: "r < length (heap m)" "pa_state (heap m ! r) = Pending"
      "op = ExpireStale now" "parseDate (pa_expiresAt (heap m ! r)) = Some t" "t < now"
      "r \<in> snd ` set (queue m)"
      by blast
    have st: "is_stale parseDate now (heap m ! r)"
      using f by (simp add: is_stale_def)
    have "am_wf m \<longrightarrow>
             r \<notin> snd ` set (queue (approval_step parseDate m op)) \<and>
             r \<in> set (staleRefs parseDate now m) \<and>
             history (approval_step parseDate m op) =
               take maxHistory (rev (staleRefs parseDate now m) @ history m)"
      using expired_leaves_queue[OF _ f(1) st f(6)] expireStale_history[of m parseDate now] f(3)
      by simp
    with f show ?thesis by blast
  qed
  from 1 2 show ?thesis by blast
qed


lemma example_approvals_eval:
  "heap example_approvals =
     [\<lparr>pa_id = ''R1'', pa_agentId = ''U1'', pa_category = SpendApproval,
       pa_description = ''buy a domain'', pa_amount = Some 12.5, pa_currency = Some ''USD'',
       pa_createdAt = ''2026-01-01T00:00:00.000Z'', pa_expiresAt = ''2026-01-01T00:01:00.000Z'',
       pa_state = Pending, respondedBy = None, reason = None, respondedAt = None\<rparr>]"
  "queue example_approvals = [(''R1'', 0)]"
  "history example_approvals = []"
  by (simp_all add: example_approvals_def addRequest_def Let_def new_approval_manager_def
        example_request_def)

lemma example_approvals_wf: "am_wf example_approvals"
  unfolding example_approvals_def by (rule am_wf_addRequest[OF am_wf_new])

theorem resolve_transitions_witness:
  "am_wf example_approvals \<and>
   map_of (queue example_approvals) ''R9'' = None \<and>
   fst (resolve example_approvals ''R9'' True ''op'' None ''2026-01-01T00:00:30.000Z'') = None \<and>
   map_of (queue example_approvals) ''R1'' = Some 0 \<and>
   pa_state (heap example_approvals ! 0) = Pending \<and>
   fst (resolve example_approvals ''R1'' True ''op'' None ''2026-01-01T00:00:30.000Z'') = Some 0"
proof -
  have q9: "map_of (queue example_approvals) ''R9'' = None"
    by (simp add: example_approvals_eval)
  have q1: "map_of (queue example_approvals) ''R1'' = Some 0 \<and>
            pa_state (heap example_approvals ! 0) = Pending"
    by (simp add: example_approvals_eval)
  from resolve_transitions[OF example_approvals_wf, of "''R9''" True "''op''" None
         "''2026-01-01T00:00:30.000Z''" True "''op''" None "''2026-01-01T00:00:31.000Z''"] q9
  have a: "fst (resolve example_approvals ''R9'' True ''op'' None ''2026-01-01T00:00:30.000Z'') = None"
    by simp
  from resolve_transitions[OF example_approvals_wf, of "''R1''" True "''op''" None
         "''2026-01-01T00:00:30.000Z''" True "''op''" None "''2026-01-01T00:00:31.000Z''"] q1
  have b: "fst (resolve example_approvals ''R1'' True ''op'' None ''2026-01-01T00:00:30.000Z'') = Some 0"
    by auto
  from example_approvals_wf q9 q1 a b show ?thesis by simp
qed

lemma expired_example_eval:
  "heap (expireStale example_parseDate 1767225661000 example_approvals) =
     [\<lparr>pa_id = ''R1'', pa_agentId = ''U1'', pa_category = SpendApproval,
       pa_description = ''buy a domain'', pa_amount = Some 12.5, pa_currency = Some ''USD'',
       pa_createdAt = ''2026-01-01T00:00:00.000Z'', pa_expiresAt = ''2026-01-01T00:01:00.000Z'',
       pa_state = Expired, respondedBy = None, reason = None, respondedAt = None\<rparr>]"
  by (simp add: expireStale_def expireEntry_def Let_def example_approvals_eval is_stale_def
        example_parseDate_def addToHistory_fields call_onResolved_fields)

theorem approval_terminal_and_expiry_witness:
  "0 < length (heap example_approvals) \<and>
   pa_state (heap example_approvals ! 0) = Pending \<and>
   pa_state (heap (approval_step example_parseDate example_approvals
                     (ExpireStale 1767225661000)) ! 0) = Expired \<and>
   am_wf example_approvals \<and>
   queue (approval_step example_parseDate example_approvals (ExpireStale 1767225661000)) = [] \<and>
   history (approval_step example_parseDate example_approvals (ExpireStale 1767225661000)) = [0] \<and>
   pa_state (heap (approval_step example_parseDate
      (approval_step example_parseDate example_approvals (ExpireStale 1767225661000))
      (Resolve ''R1'' True ''op'' None ''2026-01-01T00:02:00.000Z'')) ! 0) = Expired"
proof -
  let ?m = "approval_step example_parseDate example_approvals (ExpireStale 1767225661000)"
  have p: "0 < length (heap example_approvals) \<and> pa_state (heap example_approvals ! 0) = Pending"
    by (simp add: example_approvals_eval)
  have x: "0 < length (heap ?m) \<and> pa_state (heap ?m ! 0) = Expired"
    by (simp add: expired_example_eval)
  have st: "staleRefs example_parseDate 1767225661000 example_approvals = [0]"
    by (simp add: staleRefs_def example_approvals_eval is_stale_def example_parseDate_def)
  from approval_terminal_and_expiry[of 0 example_approvals example_parseDate
         "ExpireStale 1767225661000"] p x example_approvals_wf
  have h: "0 \<notin> snd ` set (queue ?m) \<and>
           history ?m = take maxHistory (rev (staleRefs example_parseDate 1767225661000
                                               example_approvals) @ history example_approvals)"
    by auto
  have q: "queue ?m = []"
    by (simp add: expireStale_queue[OF example_approvals_wf] example_approvals_eval is_stale_def
          example_parseDate_def)
  from approval_terminal_and_expiry[of 0 ?m example_parseDate
         "Resolve ''R1'' True ''op'' None ''2026-01-01T00:02:00.000Z''"] x
  have f: "heap (approval_step example_parseDate ?m
             (Resolve ''R1'' True ''op'' None ''2026-01-01T00:02:00.000Z'')) ! 0 = heap ?m ! 0"
    by simp
  from p x h q f st example_approvals_wf show ?thesis
    by (simp add: example_approvals_eval maxHistory_def)
qed

section \<open>The fleet manager\<close>

lemma recordAction_registered:
  assumes "agents fm aid = Some r"
  shows "agents (recordAction coerce fm aid action) aid =
           Some (r\<lparr>recentActions := take MAX_RECENT_ACTIONS (action # recentActions r),
                   totalActions := totalActions r + 1,
                   totalSpend := totalSpend r + spend_of coerce action\<rparr>)"
  using assms
  by (simp add: recordAction_def Let_def markDirty_def spend_of_def MAX_RECENT_ACTIONS_def)

lemma recordAction_unregistered:
  "agents fm aid = None \<Longrightarrow> recordAction coerce fm aid action = fm"
  by (simp add: recordAction_def)

lemma recordAction_other:
  "aid' \<noteq> aid \<Longrightarrow> agents (recordAction coerce fm aid action) aid' = agents fm aid'"
  by (simp add: recordAction_def Let_def markDirty_def split: option.splits)

lemma recordActions_totals:
  "agents fm aid = Some r \<Longrightarrow>
     \<exists>r'. agents (recordActions coerce fm aid as) aid = Some r' \<and>
          totalSpend r' = totalSpend r + sum_list (map (spend_of coerce) as) \<and>
          totalActions r' = totalActions r + length as"
proof (induction as arbitrary: fm r)
  case Nil
  then show ?case by simp
next
  case (Cons a as)
  let ?r1 = "r\<lparr>recentActions := take MAX_RECENT_ACTIONS (a # recentActions r),
                   totalActions := totalActions r + 1,
                   totalSpend := totalSpend r + spend_of coerce a\<rparr>"
  have "agents (recordAction coerce fm aid a) aid = Some ?r1"
    using Cons.prems by (rule recordAction_registered)
  from Cons.IH[OF this] show ?case
    by auto
qed

lemma example_fleet_U1:
  "agents example_fleet ''U1'' =
     Some \<lparr>manifest = example_manifest, rec_instance = None, connection = Unknown,
           remoteAddress = [], lastStatus = None, deployedAt = ''2026-01-01T00:00:00.000Z'',
           lastHeartbeat = None, uptimeSec = 0, recentActions = [], recentErrors = [],
           totalActions = 0, totalSpend = 0\<rparr>"
  by (simp add: example_fleet_def registerAgent_def new_fleet_def example_manifest_def
        Let_def markDirty_def)

text \<open>
  Claim C5, as stated, fails: a spend action whose \<open>details.amount\<close> is the boolean \<open>true\<close>, not
  a number, raises \<open>totalSpend\<close> from 0 to 1.
\<close>

theorem recordAction_nonnumeric_counterexample:
  "numeric_amount (details_amount spend_true) = None \<and>
   map_option totalSpend (agents example_fleet ''U1'') = Some 0 \<and>
   map_option totalSpend (agents (recordAction no_coercion example_fleet ''U1'' spend_true) ''U1'')
     = Some 1"
  by (simp add: recordAction_registered[OF example_fleet_U1] example_fleet_U1 spend_of_def
        details_amount_def spend_true_def)

text \<open>
  Claim C5, amended. For a registered agent, \<open>recordAction\<close> puts the entry in front of the
  recent actions and keeps the first 200, adds one to \<open>totalActions\<close>, and adds
  \<open>Number(details.amount) || 0\<close> to \<open>totalSpend\<close> when the category is \<open>spend\<close> and
  \<open>details.amount\<close> is truthy, and nothing otherwise. So after a list of actions
  \<open>totalSpend\<close> has grown by the sum of these coerced amounts; an action of another
  category adds nothing, and a spend action whose amount is a number adds that number.
\<close>

theorem recordAction_accounting:
  assumes "agents fm aid = Some r"
  shows "(\<exists>r'. agents (recordAction coerce fm aid action) aid = Some r' \<and>
            recentActions r' = take 200 (action # recentActions r) \<and>
            totalActions r' = totalActions r + 1 \<and>
            totalSpend r' = totalSpend r +
              (if al_category action = Spend \<and> truthy (details_amount action)
               then or_zero (Number_js coerce (details_amount action)) else 0)) \<and>
         (\<exists>r'. agents (recordActions coerce fm aid as) aid = Some r' \<and>
            totalActions r' = totalActions r + length as \<and>
            totalSpend r' = totalSpend r + sum_list (map (spend_of coerce) as)) \<and>
         (al_category action \<noteq> Spend \<longrightarrow> spend_of coerce action = 0) \<and>
         (al_category action = Spend \<and> details_amount action = JNum (Fin x)
            \<longrightarrow> spend_of coerce action = x)"
proof -
  have 1: "\<exists>r'. agents (recordAction coerce fm aid action) aid = Some r' \<and>
            recentActions r' = take 200 (action # recentActions r) \<and>
            totalActions r' = totalActions r + 1 \<and>
            totalSpend r' = totalSpend r +
              (if al_category action = Spend \<and> truthy (details_amount action)
               then or_zero (Number_js coerce (details_amount action)) else 0)"
    using recordAction_registered[OF assms, of coerce action]
    by (simp add: MAX_RECENT_ACTIONS_def spend_of_def)
  have 2: "\<exists>r'. agents (recordActions coerce fm aid as) aid = Some r' \<and>
            totalActions r' = totalActions r + length as \<and>
            totalSpend r' = totalSpend r + sum_list (map (spend_of coerce) as)"
    using recordActions_totals[OF assms, of coerce as] by blast
  have 3: "al_category action \<noteq> Spend \<longrightarrow> spend_of coerce action = 0"
    by (simp add: spend_of_def)
  have 4: "al_category action = Spend \<and> details_amount action = JNum (Fin x)
            \<longrightarrow> spend_of coerce action = x"
    by (simp add: spend_of_def)
  from 1 2 3 4 show ?thesis by blast
qed

theorem recordAction_accounting_witness:
  "agents example_fleet ''U1'' \<noteq> None \<and>
   map_option totalSpend
     (agents (recordActions no_coercion example_fleet ''U1'' [spend_three, spend_true]) ''U1'')
     = Some 4"
proof -
  have h: "agents example_fleet ''U1'' = Some \<lparr>manifest = example_manifest, rec_instance = None, connection = Unknown,
           remoteAddress = [], lastStatus = None, deployedAt = ''2026-01-01T00:00:00.000Z'',
           lastHeartbeat = None, uptimeSec = 0, recentActions = [], recentErrors = [],
           totalActions = 0, totalSpend = 0\<rparr>" by (rule example_fleet_U1)
  show ?thesis
    using recordAction_accounting[OF h, of no_coercion spend_three "[spend_three, spend_true]"] h
    by (auto simp: spend_of_def details_amount_def spend_three_def spend_true_def)
qed

text \<open>
  Claim C6. Registering an agent id that has a record keeps the record's \<open>totalActions\<close>,
  \<open>totalSpend\<close>, recent actions, recent errors and \<open>deployedAt\<close>, and replaces the manifest
  and the instance; \<open>deployedAt\<close> is the clock reading only when there was no record; and
  a second registration of the same id leaves counters, rings and \<open>deployedAt\<close> as the
  first one left them.
\<close>

theorem registerAgent_preserves:
  "(agents fm (ident_id (identity m)) = Some e \<longrightarrow>
      (\<exists>r. agents (registerAgent fm m inst nowIso) (ident_id (identity m)) = Some r \<and>
           totalActions r = totalActions e \<and> totalSpend r = totalSpend e \<and>
           recentActions r = recentActions e \<and> recentErrors r = recentErrors e \<and>
           deployedAt r = deployedAt e \<and> manifest r = m \<and> rec_instance r = inst)) \<and>
   (agents fm (ident_id (identity m)) = None \<longrightarrow>
      (\<exists>r. agents (registerAgent fm m inst nowIso) (ident_id (identity m)) = Some r \<and>
           deployedAt r = nowIso \<and> totalActions r = 0 \<and> totalSpend r = 0 \<and>
           recentActions r = [] \<and> recentErrors r = [] \<and> manifest r = m \<and> rec_instance r = inst)) \<and>
   (ident_id (identity m2) = ident_id (identity m) \<longrightarrow>
      (\<exists>r1 r2. agents (registerAgent fm m inst nowIso) (ident_id (identity m)) = Some r1 \<and>
           agents (registerAgent (registerAgent fm m inst nowIso) m2 inst2 nowIso2)
             (ident_id (identity m)) = Some r2 \<and>
           totalActions r2 = totalActions r1 \<and> totalSpend r2 = totalSpend r1 \<and>
           recentActions r2 = recentActions r1 \<and> recentErrors r2 = recentErrors r1 \<and>
           deployedAt r2 = deployedAt r1 \<and> manifest r2 = m2 \<and> rec_instance r2 = inst2))"
  by (simp add: registerAgent_def Let_def markDirty_def)


theorem registerAgent_preserves_witness:
  "agents new_fleet (ident_id (identity example_manifest)) = None \<and>
   agents (recordAction no_coercion example_fleet ''U1'' spend_three)
     (ident_id (identity example_manifest)) \<noteq> None \<and>
   map_option deployedAt (agents example_fleet ''U1'') = Some ''2026-01-01T00:00:00.000Z'' \<and>
   map_option totalActions
     (agents (registerAgent (recordAction no_coercion example_fleet ''U1'' spend_three)
                example_manifest None ''2026-02-02T00:00:00.000Z'') ''U1'') = Some 1 \<and>
   map_option totalSpend
     (agents (registerAgent (recordAction no_coercion example_fleet ''U1'' spend_three)
                example_manifest None ''2026-02-02T00:00:00.000Z'') ''U1'') = Some 3 \<and>
   map_option recentActions
     (agents (registerAgent (recordAction no_coercion example_fleet ''U1'' spend_three)
                example_manifest None ''2026-02-02T00:00:00.000Z'') ''U1'') = Some [spend_three] \<and>
   map_option deployedAt
     (agents (registerAgent (recordAction no_coercion example_fleet ''U1'' spend_three)
                example_manifest None ''2026-02-02T00:00:00.000Z'') ''U1'')
     = Some ''2026-01-01T00:00:00.000Z''"
proof -
  let ?fm = "recordAction no_coercion example_fleet ''U1'' spend_three"
  let ?e = "\<lparr>manifest = example_manifest, rec_instance = None, connection = Unknown,
           remoteAddress = [], lastStatus = None, deployedAt = ''2026-01-01T00:00:00.000Z'',
           lastHeartbeat = None, uptimeSec = 0, recentActions = [spend_three], recentErrors = [],
           totalActions = 1, totalSpend = 3\<rparr>"
  have n: "agents new_fleet (ident_id (identity example_manifest)) = None"
    by (simp add: new_fleet_def)
  have i: "ident_id (identity example_manifest) = ''U1''"
    by (simp add: example_manifest_def)
  have e: "agents ?fm (ident_id (identity example_manifest)) = Some ?e"
    by (simp add: i recordAction_registered[OF example_fleet_U1] spend_of_def details_amount_def
          spend_three_def MAX_RECENT_ACTIONS_def)
  from registerAgent_preserves[of ?fm example_manifest ?e None "''2026-02-02T00:00:00.000Z''"
         example_manifest None "''2026-03-03T00:00:00.000Z''"] e
  obtain r where r:
    "agents (registerAgent ?fm example_manifest None ''2026-02-02T00:00:00.000Z'')
       (ident_id (identity example_manifest)) = Some r"
    "totalActions r = totalActions ?e" "totalSpend r = totalSpend ?e"
    "recentActions r = recentActions ?e" "deployedAt r = deployedAt ?e"
    by blast
  from registerAgent_preserves[of new_fleet example_manifest ?e None "''2026-01-01T00:00:00.000Z''"
         example_manifest None "''2026-03-03T00:00:00.000Z''"] n
  obtain r0 where r0:
    "agents (registerAgent new_fleet example_manifest None ''2026-01-01T00:00:00.000Z'')
       (ident_id (identity example_manifest)) = Some r0"
    "deployedAt r0 = ''2026-01-01T00:00:00.000Z''"
    by blast
  have d: "map_option deployedAt (agents example_fleet ''U1'') = Some ''2026-01-01T00:00:00.000Z''"
    using r0 by (simp add: example_fleet_def i)
  show ?thesis
    using n e d r by (simp add: i)
qed

section \<open>The script generator and the dashboard route\<close>











lemma sendToAgent_fleet: "fleet (snd (sendToAgent srv aid msg)) = fleet srv"
  by (simp add: sendToAgent_def split: option.splits)






end
